theory Spec2Isabelle
  imports Complex_Main
begin

text \<open>
  A shallow embedding of \<open>code/model_interface.py\<close>, the Lightning module \<open>MInterface\<close>
  that fine-tunes a causal language model and scores the numbers it generates. Methods
  are functions of the state of the module; an exception is a value \<open>Inl e\<close>; the calls
  into \<open>transformers\<close>, \<open>peft\<close> and \<open>optims\<close>, and the builtin \<open>float\<close>, are parameters.
  Moves between devices and \<open>print\<close> are left out.
\<close>

section \<open>Texts, numbers and the metric\<close>

text \<open>
  The exceptions the module can raise, as values. \<open>SystemExit\<close> is what \<open>sys.exit()\<close>
  raises.
\<close>

datatype error = IndexError | ValueError | TypeError | AttributeError | SystemExit

text \<open>
  A Python float (and an element of a floating tensor) is a finite number, one of the two
  infinities, or NaN. Finite values are carried as reals: rounding is not modelled.
\<close>

datatype fval = Finite real | PosInf | NegInf | NaN

subsection \<open>\<open>re.findall(r'<(.*?)>', text)\<close>\<close>

definition newline :: char where
  "newline = CHR 0x0A"

text \<open>
  After an opening \<open><\<close>, the lazy group \<open>(.*?)\<close> takes characters up to the first \<open>>\<close>.
  The dot matches every character but the line feed (no \<open>DOTALL\<close> flag is given), so a
  line feed before the closing bracket, or the end of the text, makes the attempt fail.
  The result is the group and the text after the closing bracket.
\<close>

fun lazy_group :: "string \<Rightarrow> (string \<times> string) option" where
  "lazy_group [] = None"
| "lazy_group (c # cs) =
     (if c = CHR ''>'' then Some ([], cs)
      else if c = newline then None
      else (case lazy_group cs of
              None \<Rightarrow> None
            | Some (g, r) \<Rightarrow> Some (c # g, r)))"

text \<open>
  \<open>findall\<close> scans from the left. At a \<open><\<close> it tries the pattern; on a match it keeps the
  group and goes on after the match, otherwise it goes on at the next character.
\<close>

function findall :: "string \<Rightarrow> string list" where
  "findall [] = []"
| "findall (c # cs) =
     (if c = CHR ''<'' then
        (case lazy_group cs of
           Some (g, r) \<Rightarrow> g # findall r
         | None \<Rightarrow> findall cs)
      else findall cs)"
  by pat_completeness auto
termination
proof (relation "measure length")
  show "wf (measure length)" by simp
next
  fix c :: char and cs :: string
  show "(cs, c # cs) \<in> measure length" by simp
next
  fix c :: char and cs :: string
  show "(cs, c # cs) \<in> measure length" by simp
next
  fix c :: char and cs :: string and x2 :: "string \<times> string" and g r :: string
  assume m: "lazy_group cs = Some x2" and x2: "(g, r) = x2"
  have "\<And>g r. lazy_group cs = Some (g, r) \<Longrightarrow> length r < length cs"
  proof (induction cs)
    case Nil
    then show ?case by simp
  next
    case (Cons a as)
    then show ?case
      by (fastforce split: if_splits option.splits)
  qed
  with m x2 have "length r < length cs" by metis
  then show "(r, c # cs) \<in> measure length" by simp
qed

subsection \<open>List indexing that can fail\<close>

text \<open>\<open>xs[-1]\<close> and \<open>xs[0]\<close>: Python raises \<open>IndexError\<close> on the empty list.\<close>

definition last_item :: "'a list \<Rightarrow> error + 'a" where
  "last_item xs = (if xs = [] then Inl IndexError else Inr (last xs))"

definition first_item :: "'a list \<Rightarrow> error + 'a" where
  "first_item xs = (case xs of [] \<Rightarrow> Inl IndexError | x # _ \<Rightarrow> Inr x)"

subsection \<open>The builtin \<open>float\<close>\<close>

text \<open>
  The builtin \<open>float(s)\<close> is not code of this module. It is a parameter of the model: a
  function from strings to floats, \<open>None\<close> where Python raises \<open>ValueError\<close>.
\<close>

type_synonym pyfloat = "string \<Rightarrow> fval option"

text \<open>
  One instance, for running the model on concrete texts: plain decimal literals, an
  optional sign, digits and an optional fraction. Python's \<open>float\<close> accepts more
  (exponents, underscores, surrounding blanks, \<open>inf\<close>, \<open>nan\<close>); on the strings accepted
  here it gives the number written, up to rounding.
\<close>

definition is_digit :: "char \<Rightarrow> bool" where
  "is_digit c = (c \<in> set ''0123456789'')"

definition digit_of :: "char \<Rightarrow> nat" where
  "digit_of c = of_char c - 48"

definition nat_of_digits :: "string \<Rightarrow> nat" where
  "nat_of_digits ds = foldl (\<lambda>n c. 10 * n + digit_of c) 0 ds"

definition decimal_value :: "bool \<Rightarrow> string \<Rightarrow> string \<Rightarrow> fval" where
  "decimal_value neg ip fp =
     Finite ((if neg then - 1 else 1) * (real (nat_of_digits (ip @ fp)) / 10 ^ length fp))"

definition unsigned_decimal :: "bool \<Rightarrow> string \<Rightarrow> fval option" where
  "unsigned_decimal neg body =
     (let ip = takeWhile is_digit body; rest = dropWhile is_digit body
      in case rest of
           [] \<Rightarrow> if ip = [] then None else Some (decimal_value neg ip [])
         | c # fp \<Rightarrow>
             if c = CHR ''.'' \<and> list_all is_digit fp \<and> (ip \<noteq> [] \<or> fp \<noteq> [])
             then Some (decimal_value neg ip fp) else None)"

definition plain_decimal :: pyfloat where
  "plain_decimal s =
     (case s of
        [] \<Rightarrow> None
      | c # cs \<Rightarrow>
          if c = CHR ''-'' then unsigned_decimal True cs
          else if c = CHR ''+'' then unsigned_decimal False cs
          else unsigned_decimal False s)"

subsection \<open>The metric loop of \<open>on_validation_epoch_end\<close> and \<open>on_test_epoch_end\<close>\<close>

text \<open>
  The contents collected over an epoch: the dictionary with the keys \<open>input\<close>,
  \<open>generated_text\<close> and \<open>label\<close>.
\<close>

record content =
  content_input :: "string list"
  generated_text :: "string list"
  label :: "string list"

text \<open>
  The first two statements of the loop body: \<open>predict = re.findall(pattern, predict)[-1]\<close>
  and \<open>label = float(re.findall(pattern, label)[0])\<close>, in this order.
\<close>

definition extract_pair :: "pyfloat \<Rightarrow> string \<Rightarrow> string \<Rightarrow> error + (string \<times> fval)" where
  "extract_pair pyfloat predict lab =
     (case last_item (findall predict) of
        Inl e \<Rightarrow> Inl e
      | Inr p \<Rightarrow>
          (case first_item (findall lab) of
             Inl e \<Rightarrow> Inl e
           | Inr l \<Rightarrow>
               (case pyfloat l of
                  None \<Rightarrow> Inl ValueError
                | Some v \<Rightarrow> Inr (p, v))))"

text \<open>\<open>try: predict = float(predict)  except: predict = 0\<close>\<close>

definition float_or_zero :: "pyfloat \<Rightarrow> string \<Rightarrow> fval" where
  "float_or_zero pyfloat predict =
     (case pyfloat predict of Some v \<Rightarrow> v | None \<Rightarrow> Finite 0)"

text \<open>The \<open>for\<close> loop over the zipped texts, with the two lists it appends to.\<close>

fun extract_loop ::
  "pyfloat \<Rightarrow> (string \<times> string) list \<Rightarrow> fval list \<Rightarrow> fval list \<Rightarrow> error + (fval list \<times> fval list)"
where
  "extract_loop pyfloat [] y_true y_pre = Inr (y_true, y_pre)"
| "extract_loop pyfloat ((predict, lab) # rest) y_true y_pre =
     (case extract_pair pyfloat predict lab of
        Inl e \<Rightarrow> Inl e
      | Inr (p, l) \<Rightarrow>
          extract_loop pyfloat rest (y_true @ [l]) (y_pre @ [float_or_zero pyfloat p]))"

text \<open>
  \<open>sklearn.metrics.mean_absolute_error\<close>, a library function, as its documentation has
  it: the two arrays must have the same number of samples, at least one, and only finite
  entries (\<open>ValueError\<close> otherwise); the result is the average of \<open>|y_pred - y_true|\<close>.
\<close>

fun is_finite :: "fval \<Rightarrow> bool" where
  "is_finite (Finite r) = True"
| "is_finite v = False"

fun real_of :: "fval \<Rightarrow> real" where
  "real_of (Finite r) = r"
| "real_of v = 0"

definition mean_absolute_error :: "fval list \<Rightarrow> fval list \<Rightarrow> error + real" where
  "mean_absolute_error y_true y_pred =
     (if length y_true \<noteq> length y_pred then Inl ValueError
      else if y_true = [] then Inl ValueError
      else if \<not> (list_all is_finite y_true \<and> list_all is_finite y_pred) then Inl ValueError
      else Inr (sum_list (map2 (\<lambda>t p. \<bar>real_of p - real_of t\<bar>) y_true y_pred)
                / real (length y_true)))"

text \<open>
  The body shared, word for word, by \<open>on_validation_epoch_end\<close> and \<open>on_test_epoch_end\<close>:
  the loop, then the metric. The result is the value handed to \<open>self.log('metric', ...)\<close>.
\<close>

definition epoch_metric :: "pyfloat \<Rightarrow> content \<Rightarrow> error + real" where
  "epoch_metric pyfloat c =
     (case extract_loop pyfloat (zip (generated_text c) (label c)) [] [] of
        Inl e \<Rightarrow> Inl e
      | Inr (y_true, y_pre) \<Rightarrow> mean_absolute_error y_true y_pre)"

section \<open>The module \<open>MInterface\<close>\<close>

subsection \<open>Data\<close>

text \<open>
  A Python attribute is not there until it is assigned (reading it raises
  \<open>AttributeError\<close>), and once assigned it can hold \<open>None\<close>.
\<close>

datatype 'a attribute = Missing | IsNone | Is 'a

text \<open>
  The hyperparameters the module reads. \<open>weight_decay\<close> is \<open>None\<close> when
  \<open>hasattr(self.hparams, 'weight_decay')\<close> is false; \<open>lr_scheduler\<close> is \<open>None\<close> for
  Python's \<open>None\<close>.
\<close>

record hparams =
  hparams_cuda :: string
  max_input_length :: int
  max_gen_length :: int
  batch_size :: int
  lr :: real
  weight_decay :: "real option"
  lr_scheduler :: "string option"
  lr_decay_min_lr :: real
  lr_warmup_start_lr :: real

text \<open>What the module reads of the trainer.\<close>

record trainer =
  global_step :: int
  current_epoch :: int
  max_steps :: int

text \<open>A batch: the dictionary with the keys \<open>input\<close> and \<open>answer\<close>.\<close>

record batch =
  input :: "string list"
  answer :: "string list"

text \<open>
  Integer tensors of two dimensions (batch, position) are lists of rows. A floating
  tensor is the list of its elements.
\<close>

type_synonym int_tensor = "int list list"

type_synonym bool_tensor = "bool list list"

type_synonym float_tensor = "fval list"

record encoding =
  input_ids :: int_tensor
  attention_mask :: int_tensor
  token_type_ids :: int_tensor

text \<open>
  A tokenizer: what the library loaded (\<open>'t\<close>), and the two attributes the module reads
  and writes.
\<close>

record 't tokenizer =
  pretrained :: 't
  pad_token_id :: "int option"
  eos_token_id :: "int option"

text \<open>The keyword arguments of the library calls in \<open>load_llm\<close> and \<open>generate\<close>.\<close>

datatype dtype = Float16 | BFloat16 | Float32

record tokenizer_args =
  tokenizer_id :: string
  tokenizer_token :: string
  tokenizer_cache_dir :: string
  padding_side :: string

record bnb_config =
  load_in_4bit :: bool
  bnb_4bit_quant_type :: string
  bnb_4bit_compute_dtype :: dtype
  bnb_4bit_use_double_quant :: bool

record model_args =
  model_id :: string
  model_token :: string
  quantization_config :: bnb_config
  device_map :: string
  model_cache_dir :: string
  attn_implementation :: string

record lora_config =
  lora_r :: int
  lora_alpha :: int
  lora_dropout :: real
  bias :: string
  task_type :: string
  target_modules :: "string list"

record generate_args =
  gen_input_ids :: int_tensor
  gen_attention_mask :: int_tensor
  temperature :: real
  do_sample :: bool
  num_beams :: int
  max_new_tokens :: int
  min_new_tokens :: int
  gen_pad_token_id :: "int option"
  repetition_penalty :: real
  length_penalty :: real
  num_return_sequences :: int
  output_scores :: bool
  return_dict_in_generate :: bool
  return_legacy_cache :: bool

text \<open>
  \<open>torch.optim.AdamW\<close> over a list of parameter groups; \<open>params\<close> is the model whose
  \<open>parameters()\<close> the group holds.
\<close>

record 'm param_group =
  params :: 'm
  group_lr :: real
  group_weight_decay :: real

datatype 'm optimizer = AdamW "'m param_group list"

text \<open>
  \<open>LinearWarmupCosineLRScheduler\<close> comes from the module \<open>optims\<close>; here it is the
  optimizer and the keyword arguments it is constructed with.
\<close>

record 'm scheduler =
  sched_optimizer :: "'m optimizer"
  max_step :: int
  min_lr :: real
  init_lr :: real
  warmup_steps :: int
  warmup_start_lr :: real

text \<open>
  The libraries (\<open>transformers\<close>, \<open>peft\<close>, \<open>optims\<close>) are a parameter of the model: one
  function for each call the module makes. \<open>tokenize_pairs\<close> and \<open>tokenize_texts\<close> are
  the tokenizer called on a list of pairs and on a list of texts, with \<open>max_length\<close>;
  \<open>model_loss\<close> is \<open>self.model(input_ids, attention_mask, labels).loss\<close>;
  \<open>model_generate\<close> is \<open>self.model.generate(...)['sequences']\<close>; \<open>scheduler_step\<close> is
  \<open>scheduler.step(global_step, current_epoch, max_steps)\<close>.
\<close>

record ('t, 'm) library =
  AutoTokenizer_from_pretrained :: "tokenizer_args \<Rightarrow> 't tokenizer"
  AutoModelForCausalLM_from_pretrained :: "model_args \<Rightarrow> 'm"
  get_peft_model :: "'m \<Rightarrow> lora_config \<Rightarrow> 'm"
  tokenize_pairs :: "'t tokenizer \<Rightarrow> (string \<times> string) list \<Rightarrow> int \<Rightarrow> encoding"
  tokenize_texts :: "'t tokenizer \<Rightarrow> string list \<Rightarrow> int \<Rightarrow> encoding"
  batch_decode :: "'t tokenizer \<Rightarrow> int_tensor \<Rightarrow> string list"
  model_loss :: "'m \<Rightarrow> int_tensor \<Rightarrow> int_tensor \<Rightarrow> int_tensor \<Rightarrow> float_tensor"
  model_generate :: "'m \<Rightarrow> generate_args \<Rightarrow> int_tensor"
  scheduler_step :: "'m scheduler \<Rightarrow> int \<Rightarrow> int \<Rightarrow> int \<Rightarrow> 'm scheduler"

text \<open>
  The attributes of an \<open>MInterface\<close> object. \<open>load_llm_calls\<close> is not an attribute of the
  Python object: it counts the calls of \<open>load_llm\<close>.
\<close>

record ('t, 'm) minterface =
  hparams :: hparams
  cuda :: string
  tokenizer :: "'t tokenizer option"
  model :: "'m option"
  scheduler :: "'m scheduler attribute"
  val_content :: "content option"
  test_content :: "content option"
  load_llm_calls :: nat

subsection \<open>\<open>load_llm\<close> and \<open>__init__\<close>\<close>

definition load_llm :: "('t, 'm) library \<Rightarrow> ('t, 'm) minterface \<Rightarrow> ('t, 'm) minterface" where
  "load_llm lib s =
     (let model_name = ''Llama-3.2-1B-Instruct'';
          hf_token = ''your_huggingface_token'';
          model_source = ''meta-llama/'';
          model_id = model_source @ model_name;
          torch_dtype = Float16;
          attn_implementation = ''eager'';
          cache_dir = ''/home/haohao/.huggingface'';
          tok = AutoTokenizer_from_pretrained lib
                  \<lparr>tokenizer_id = model_id, tokenizer_token = hf_token,
                   tokenizer_cache_dir = cache_dir, padding_side = ''left''\<rparr>;
          tok = (if pad_token_id tok = None then tok\<lparr>pad_token_id := eos_token_id tok\<rparr>
                 else tok);
          bnb_config = \<lparr>load_in_4bit = True, bnb_4bit_quant_type = ''nf4'',
                        bnb_4bit_compute_dtype = torch_dtype,
                        bnb_4bit_use_double_quant = True\<rparr>;
          m = AutoModelForCausalLM_from_pretrained lib
                \<lparr>model_id = model_id, model_token = hf_token,
                 quantization_config = bnb_config, device_map = cuda s,
                 model_cache_dir = cache_dir, attn_implementation = attn_implementation\<rparr>;
          peft_config = \<lparr>lora_r = 16, lora_alpha = 32, lora_dropout = 5 / 100,
                         bias = ''none'', task_type = ''CAUSAL_LM'',
                         target_modules = [''up_proj'', ''down_proj'', ''gate_proj'',
                                           ''k_proj'', ''q_proj'', ''v_proj'', ''o_proj'']\<rparr>
      in s\<lparr>tokenizer := Some tok,
           model := Some (get_peft_model lib m peft_config),
           load_llm_calls := Suc (load_llm_calls s)\<rparr>)"

text \<open>
  \<open>__init__(**kargs)\<close>: the hyperparameters are saved, \<open>self.cuda\<close> is set, and
  \<open>load_llm\<close> is called. No other attribute exists yet.
\<close>

definition init :: "('t, 'm) library \<Rightarrow> hparams \<Rightarrow> ('t, 'm) minterface" where
  "init lib kargs =
     load_llm lib
       \<lparr>hparams = kargs, cuda = ''cuda:'' @ hparams_cuda kargs,
        tokenizer = None, model = None, scheduler = Missing,
        val_content = None, test_content = None, load_llm_calls = 0\<rparr>"

subsection \<open>\<open>forward\<close> and \<open>has_nan_or_inf\<close>\<close>

text \<open>
  \<open>tensor == value\<close> and \<open>tensor.masked_fill(mask, value)\<close>, elementwise, for a mask of
  the shape of the tensor.
\<close>

definition eq_scalar :: "int_tensor \<Rightarrow> int \<Rightarrow> bool_tensor" where
  "eq_scalar t v = map (map (\<lambda>x. x = v)) t"

definition masked_fill :: "int_tensor \<Rightarrow> bool_tensor \<Rightarrow> int \<Rightarrow> int_tensor" where
  "masked_fill t msk v =
     map2 (\<lambda>row msk_row. map2 (\<lambda>x m. if m then v else x) row msk_row) t msk"

text \<open>
  The first half of \<open>forward\<close>: the pairs are tokenized and the labels are built from the
  input ids. Comparing a tensor with \<open>None\<close> gives a plain \<open>False\<close>, which \<open>masked_fill\<close>
  rejects with \<open>TypeError\<close>. The embeddings that \<open>forward\<close> computes next are not used.
\<close>

definition forward_tensors ::
  "('t, 'm) library \<Rightarrow> ('t, 'm) minterface \<Rightarrow> batch \<Rightarrow> error + (encoding \<times> int_tensor)"
where
  "forward_tensors lib s b =
     (let input_pairs = zip (input b) (answer b)
      in case tokenizer s of
           None \<Rightarrow> Inl AttributeError
         | Some tok \<Rightarrow>
             (let input_encoding = tokenize_pairs lib tok input_pairs (max_input_length (hparams s))
              in case model s of
                   None \<Rightarrow> Inl AttributeError
                 | Some m \<Rightarrow>
                     (case pad_token_id tok of
                        None \<Rightarrow> Inl TypeError
                      | Some pad \<Rightarrow>
                          (let target_ids = input_ids input_encoding;
                               target_ids = masked_fill target_ids (eq_scalar target_ids pad) (- 100);
                               target_ids = masked_fill target_ids
                                              (eq_scalar (token_type_ids input_encoding) 0) (- 100)
                           in Inr (input_encoding, target_ids)))))"

definition isnan :: "float_tensor \<Rightarrow> bool list" where
  "isnan t = map (\<lambda>x. x = NaN) t"

definition isinf :: "float_tensor \<Rightarrow> bool list" where
  "isinf t = map (\<lambda>x. x = PosInf \<or> x = NegInf) t"

definition has_nan_or_inf :: "float_tensor \<Rightarrow> bool" where
  "has_nan_or_inf t =
     (let has_nan = isnan t; has_inf = isinf t
      in list_ex (\<lambda>x. x) (map2 (\<or>) has_nan has_inf))"

definition forward ::
  "('t, 'm) library \<Rightarrow> ('t, 'm) minterface \<Rightarrow> batch \<Rightarrow> error + float_tensor"
where
  "forward lib s b =
     (case forward_tensors lib s b of
        Inl e \<Rightarrow> Inl e
      | Inr (input_encoding, target_ids) \<Rightarrow>
          (case model s of
             None \<Rightarrow> Inl AttributeError
           | Some m \<Rightarrow>
               (let lm_loss = model_loss lib m (input_ids input_encoding)
                                (attention_mask input_encoding) target_ids
                in if has_nan_or_inf lm_loss then Inl SystemExit else Inr lm_loss)))"

subsection \<open>\<open>training_step\<close>\<close>

definition configure_loss :: "float_tensor \<Rightarrow> float_tensor" where
  "configure_loss out = out"

text \<open>What \<open>self.log\<close> is called with.\<close>

datatype logged = Log_tensor float_tensor | Log_float real | Log_int int

text \<open>\<open>self.scheduler.optimizer.param_groups[0]['lr']\<close>\<close>

definition first_group_lr :: "'m scheduler \<Rightarrow> error + real" where
  "first_group_lr sc =
     (case sched_optimizer sc of AdamW groups \<Rightarrow>
        (case first_item groups of Inl e \<Rightarrow> Inl e | Inr g \<Rightarrow> Inr (group_lr g)))"

text \<open>
  The result is the new state, the loss returned and the values logged. A scheduler
  object is true in \<open>if self.scheduler:\<close>; \<open>None\<close> is false, and then has no \<open>optimizer\<close>.
\<close>

definition training_step ::
  "('t, 'm) library \<Rightarrow> trainer \<Rightarrow> ('t, 'm) minterface \<Rightarrow> batch \<Rightarrow> int \<Rightarrow>
     error + (('t, 'm) minterface \<times> float_tensor \<times> (string \<times> logged) list)"
where
  "training_step lib tr s b batch_idx =
     (case scheduler s of
        Missing \<Rightarrow> Inl AttributeError
      | IsNone \<Rightarrow>
          (case forward lib s b of
             Inl e \<Rightarrow> Inl e
           | Inr out \<Rightarrow> Inl AttributeError)
      | Is sc \<Rightarrow>
          (let sc' = scheduler_step lib sc (global_step tr) (current_epoch tr) (max_steps tr);
               s' = s\<lparr>scheduler := Is sc'\<rparr>
           in case forward lib s' b of
                Inl e \<Rightarrow> Inl e
              | Inr out \<Rightarrow>
                  (let loss = configure_loss out
                   in case first_group_lr sc' of
                        Inl e \<Rightarrow> Inl e
                      | Inr rate \<Rightarrow>
                          Inr (s', loss,
                               [(''loss'', Log_tensor loss), (''lr'', Log_float rate),
                                (''global_step_num'', Log_int (global_step tr))]))))"

subsection \<open>\<open>generate\<close>\<close>

text \<open>The parameters of \<open>generate\<close> after the batch, and their default values.\<close>

record generate_params =
  param_temperature :: real
  param_do_sample :: bool
  param_num_beams :: int
  param_min_gen_length :: int
  param_repetition_penalty :: real
  param_length_penalty :: real
  param_num_return_sequences :: int

definition default_params :: generate_params where
  "default_params =
     \<lparr>param_temperature = 0, param_do_sample = False, param_num_beams = 1,
      param_min_gen_length = 1, param_repetition_penalty = 1, param_length_penalty = 1,
      param_num_return_sequences = 1\<rparr>"

definition generate ::
  "('t, 'm) library \<Rightarrow> ('t, 'm) minterface \<Rightarrow> batch \<Rightarrow> generate_params \<Rightarrow> error + string list"
where
  "generate lib s b p =
     (let max_gen_length = max_gen_length (hparams s);
          input_pairs = map fst (zip (input b) (answer b))
      in case tokenizer s of
           None \<Rightarrow> Inl AttributeError
         | Some tok \<Rightarrow>
             (let input_encoding = tokenize_texts lib tok input_pairs (max_input_length (hparams s))
              in case model s of
                   None \<Rightarrow> Inl AttributeError
                 | Some m \<Rightarrow>
                     (let sequence_ids =
                            model_generate lib m
                              \<lparr>gen_input_ids = input_ids input_encoding,
                               gen_attention_mask = attention_mask input_encoding,
                               temperature = param_temperature p,
                               do_sample = param_do_sample p,
                               num_beams = param_num_beams p,
                               max_new_tokens = max_gen_length,
                               min_new_tokens = param_min_gen_length p,
                               gen_pad_token_id = pad_token_id tok,
                               repetition_penalty = param_repetition_penalty p,
                               length_penalty = param_length_penalty p,
                               num_return_sequences = param_num_return_sequences p,
                               output_scores = True,
                               return_dict_in_generate = True,
                               return_legacy_cache = True\<rparr>
                      in Inr (batch_decode lib tok sequence_ids))))"

subsection \<open>Validation and test\<close>

definition empty_content :: content where
  "empty_content = \<lparr>content_input = [], generated_text = [], label = []\<rparr>"

definition on_validation_epoch_start :: "('t, 'm) minterface \<Rightarrow> ('t, 'm) minterface" where
  "on_validation_epoch_start s = s\<lparr>val_content := Some empty_content\<rparr>"

definition on_test_epoch_start :: "('t, 'm) minterface \<Rightarrow> ('t, 'm) minterface" where
  "on_test_epoch_start s = s\<lparr>test_content := Some empty_content\<rparr>"

text \<open>
  The loop of \<open>validation_step\<close> and \<open>test_step\<close>: for each pair of the batch, the prompt,
  the answer and \<open>texts[b]\<close> are appended, and \<open>b\<close> goes up by one.
\<close>

fun collect ::
  "string list \<Rightarrow> (string \<times> string) list \<Rightarrow> nat \<Rightarrow> content option \<Rightarrow> error + content option"
where
  "collect texts [] b c = Inr c"
| "collect texts ((prompt, ans) # rest) b c =
     (case c of
        None \<Rightarrow> Inl AttributeError
      | Some d \<Rightarrow>
          if b < length texts then
            collect texts rest (b + 1)
              (Some (d\<lparr>content_input := content_input d @ [prompt],
                       label := label d @ [ans],
                       generated_text := generated_text d @ [texts ! b]\<rparr>))
          else Inl IndexError)"

definition validation_step ::
  "('t, 'm) library \<Rightarrow> ('t, 'm) minterface \<Rightarrow> batch \<Rightarrow> int \<Rightarrow> error + ('t, 'm) minterface"
where
  "validation_step lib s b batch_idx =
     (case generate lib s b default_params of
        Inl e \<Rightarrow> Inl e
      | Inr texts \<Rightarrow>
          (case collect texts (zip (input b) (answer b)) 0 (val_content s) of
             Inl e \<Rightarrow> Inl e
           | Inr c \<Rightarrow> Inr (s\<lparr>val_content := c\<rparr>)))"

definition test_step ::
  "('t, 'm) library \<Rightarrow> ('t, 'm) minterface \<Rightarrow> batch \<Rightarrow> int \<Rightarrow> error + ('t, 'm) minterface"
where
  "test_step lib s b batch_idx =
     (case generate lib s b default_params of
        Inl e \<Rightarrow> Inl e
      | Inr texts \<Rightarrow>
          (case collect texts (zip (input b) (answer b)) 0 (test_content s) of
             Inl e \<Rightarrow> Inl e
           | Inr c \<Rightarrow> Inr (s\<lparr>test_content := c\<rparr>)))"

definition on_validation_epoch_end :: "pyfloat \<Rightarrow> ('t, 'm) minterface \<Rightarrow> error + real" where
  "on_validation_epoch_end pyfloat s =
     (case val_content s of
        None \<Rightarrow> Inl AttributeError
      | Some c \<Rightarrow> epoch_metric pyfloat c)"

definition on_test_epoch_end :: "pyfloat \<Rightarrow> ('t, 'm) minterface \<Rightarrow> error + real" where
  "on_test_epoch_end pyfloat s =
     (case test_content s of
        None \<Rightarrow> Inl AttributeError
      | Some c \<Rightarrow> epoch_metric pyfloat c)"

subsection \<open>\<open>configure_optimizers\<close>\<close>

text \<open>
  The result is the state (the branch that raises has set \<open>self.scheduler = None\<close>
  before) and either the error or the optimizer returned.
\<close>

definition configure_optimizers ::
  "trainer \<Rightarrow> ('t, 'm) minterface \<Rightarrow> ('t, 'm) minterface \<times> (error + 'm optimizer)"
where
  "configure_optimizers tr s =
     (let weight_decay = (case weight_decay (hparams s) of Some w \<Rightarrow> w | None \<Rightarrow> 0)
      in case model s of
           None \<Rightarrow> (s, Inl AttributeError)
         | Some m \<Rightarrow>
             (let optimizer = AdamW [\<lparr>params = m, group_lr = lr (hparams s),
                                      group_weight_decay = weight_decay\<rparr>]
              in if lr_scheduler (hparams s) = None then (s, Inr optimizer)
                 else
                   (let max_step = max_steps tr;
                        warmup_steps = max_step div 20
                    in if lr_scheduler (hparams s) = Some ''cosine'' then
                         (s\<lparr>scheduler :=
                               Is \<lparr>sched_optimizer = optimizer, max_step = max_step,
                                   min_lr = lr_decay_min_lr (hparams s),
                                   init_lr = lr (hparams s),
                                   warmup_steps = warmup_steps,
                                   warmup_start_lr = lr_warmup_start_lr (hparams s)\<rparr>\<rparr>,
                          Inr optimizer)
                       else (s\<lparr>scheduler := IsNone\<rparr>, Inl ValueError))))"

subsection \<open>A small instance of the library\<close>

text \<open>
  For running the model on concrete batches: a tokenizer that gives every character its
  code, marks the prompt with type 0 and the answer with type 1 and pads on the left up
  to \<open>max_length\<close> (texts are taken to fit), with no pad token of its own and end-of-text
  token 0; a model whose loss is the number of positions that count, and whose
  generation appends \<open><1>\<close> to every row.
\<close>

definition pad_left :: "'a \<Rightarrow> int \<Rightarrow> 'a list \<Rightarrow> 'a list" where
  "pad_left v n xs = replicate (nat n - length xs) v @ xs"

definition pad_of :: "'t tokenizer \<Rightarrow> int" where
  "pad_of tok = (case pad_token_id tok of Some p \<Rightarrow> p | None \<Rightarrow> 0)"

definition demo_tokenize_pairs :: "unit tokenizer \<Rightarrow> (string \<times> string) list \<Rightarrow> int \<Rightarrow> encoding" where
  "demo_tokenize_pairs tok pairs n =
     \<lparr>input_ids = map (\<lambda>(p, a). pad_left (pad_of tok) n (map of_char (p @ a))) pairs,
      attention_mask = map (\<lambda>(p, a). pad_left 0 n (map (\<lambda>c. 1) (p @ a))) pairs,
      token_type_ids = map (\<lambda>(p, a). pad_left 0 n (map (\<lambda>c. 0) p @ map (\<lambda>c. 1) a)) pairs\<rparr>"

definition demo_tokenize_texts :: "unit tokenizer \<Rightarrow> string list \<Rightarrow> int \<Rightarrow> encoding" where
  "demo_tokenize_texts tok texts n =
     \<lparr>input_ids = map (\<lambda>p. pad_left (pad_of tok) n (map of_char p)) texts,
      attention_mask = map (\<lambda>p. pad_left 0 n (map (\<lambda>c. 1) p)) texts,
      token_type_ids = map (\<lambda>p. pad_left 0 n (map (\<lambda>c. 0) p)) texts\<rparr>"

definition demo_batch_decode :: "unit tokenizer \<Rightarrow> int_tensor \<Rightarrow> string list" where
  "demo_batch_decode tok ids = map (\<lambda>row. map char_of (filter (\<lambda>x. x \<noteq> pad_of tok) row)) ids"

definition demo_model_loss :: "unit \<Rightarrow> int_tensor \<Rightarrow> int_tensor \<Rightarrow> int_tensor \<Rightarrow> float_tensor" where
  "demo_model_loss m ids att labels =
     [Finite (real (length (filter (\<lambda>x. x \<noteq> - 100) (concat labels))))]"

definition demo_model_generate :: "unit \<Rightarrow> generate_args \<Rightarrow> int_tensor" where
  "demo_model_generate m args = map (\<lambda>row. row @ [60, 49, 62]) (gen_input_ids args)"

definition demo_library :: "(unit, unit) library" where
  "demo_library =
     \<lparr>AutoTokenizer_from_pretrained =
        (\<lambda>args. \<lparr>pretrained = (), pad_token_id = None, eos_token_id = Some 0\<rparr>),
      AutoModelForCausalLM_from_pretrained = (\<lambda>args. ()),
      get_peft_model = (\<lambda>m cfg. m),
      tokenize_pairs = demo_tokenize_pairs,
      tokenize_texts = demo_tokenize_texts,
      batch_decode = demo_batch_decode,
      model_loss = demo_model_loss,
      model_generate = demo_model_generate,
      scheduler_step = (\<lambda>sc step epoch total. sc)\<rparr>"

definition demo_hparams :: hparams where
  "demo_hparams =
     \<lparr>hparams_cuda = ''0'', max_input_length = 4, max_gen_length = 8, batch_size = 1,
      lr = 1 / 1000, weight_decay = None, lr_scheduler = Some ''cosine'',
      lr_decay_min_lr = 0, lr_warmup_start_lr = 0\<rparr>"

section \<open>Specification-level notions\<close>

text \<open>A text contains a \<open><...>\<close> substring: a \<open><\<close> and, somewhere after it, a \<open>>\<close>.\<close>

definition contains_angle_pair :: "string \<Rightarrow> bool" where
  "contains_angle_pair s = (\<exists>pre g post. s = pre @ CHR ''<'' # g @ CHR ''>'' # post)"

text \<open>
  A text has a bracketed match when it holds a \<open><\<close>, then characters without a line
  feed, then a \<open>>\<close>.
\<close>

definition has_bracketed :: "string \<Rightarrow> bool" where
  "has_bracketed s =
     (\<exists>pre g post. s = pre @ CHR ''<'' # g @ CHR ''>'' # post \<and> newline \<notin> set g)"

text \<open>Every generated text and every label collected has a bracketed match.\<close>

definition all_bracketed :: "content \<Rightarrow> bool" where
  "all_bracketed c =
     ((\<forall>t \<in> set (generated_text c). has_bracketed t) \<and> (\<forall>l \<in> set (label c). has_bracketed l))"

text \<open>The mean absolute error as the specification writes it.\<close>

definition spec_mae :: "real list \<Rightarrow> real list \<Rightarrow> real" where
  "spec_mae y_true y_pre =
     (1 / real (length y_true)) * (\<Sum>i<length y_true. \<bar>y_true ! i - y_pre ! i\<bar>)"

text \<open>Two tensors have the same shape: as many rows, and rows of the same lengths.\<close>

definition same_shape :: "int_tensor \<Rightarrow> int_tensor \<Rightarrow> bool" where
  "same_shape t u = (map length t = map length u)"

section \<open>Concrete inputs\<close>

text \<open>
  Contents of an epoch: two pairs, the second with a prediction that is no number; a
  label that is no number; a generated text with no brackets; a generated text whose
  brackets are on two lines. \<open>state_with\<close> is a constructed module holding given contents.
\<close>

definition demo_content :: content where
  "demo_content =
     \<lparr>content_input = [''q1'', ''q2''],
      generated_text = [''a <3> b <1.5>'', ''<x>''],
      label = [''<2> <9>'', ''<4>'']\<rparr>"

definition unparsable_label_content :: content where
  "unparsable_label_content =
     \<lparr>content_input = [''q''], generated_text = [''<1>''], label = [''<one>'']\<rparr>"

definition no_match_content :: content where
  "no_match_content =
     \<lparr>content_input = [''q''], generated_text = [''no answer''], label = [''<1>'']\<rparr>"

definition broken_text :: string where
  "broken_text = [CHR ''<'', CHR ''1'', newline, CHR ''>'']"

definition line_feed_content :: content where
  "line_feed_content =
     \<lparr>content_input = [''q''], generated_text = [broken_text], label = [''<1>'']\<rparr>"

definition state_with :: "content \<Rightarrow> (unit, unit) minterface" where
  "state_with c =
     (init demo_library demo_hparams)\<lparr>val_content := Some c, test_content := Some c\<rparr>"

text \<open>
  A batch, what the small tokenizer makes of it and the labels \<open>forward\<close> builds; two
  trainers, one with no step limit; a library whose model gives a loss with a NaN in it;
  the optimizer built from the small hyperparameters.
\<close>

definition demo_batch :: batch where
  "demo_batch = \<lparr>input = [''ab''], answer = [''c'']\<rparr>"

definition demo_encoding :: encoding where
  "demo_encoding =
     \<lparr>input_ids = [[0, 97, 98, 99]], attention_mask = [[0, 1, 1, 1]],
      token_type_ids = [[0, 0, 0, 1]]\<rparr>"

definition demo_labels :: int_tensor where
  "demo_labels = [[- 100, - 100, - 100, 99]]"

definition demo_trainer :: trainer where
  "demo_trainer = \<lparr>global_step = 0, current_epoch = 0, max_steps = 100\<rparr>"

definition unlimited_trainer :: trainer where
  "unlimited_trainer = \<lparr>global_step = 0, current_epoch = 0, max_steps = - 1\<rparr>"

definition nan_library :: "(unit, unit) library" where
  "nan_library = demo_library\<lparr>model_loss := (\<lambda>m ids att labels. [Finite 1, NaN])\<rparr>"

definition demo_optimizer :: "unit optimizer" where
  "demo_optimizer = AdamW [\<lparr>params = (), group_lr = 1 / 1000, group_weight_decay = 0\<rparr>]"

text \<open>
  Three batches with the same prompts: two with two answers each, one with a single
  answer.
\<close>

definition batch_two_answers :: batch where
  "batch_two_answers = \<lparr>input = [''ab'', ''cd''], answer = [''x'', ''y'']\<rparr>"

definition batch_other_answers :: batch where
  "batch_other_answers = \<lparr>input = [''ab'', ''cd''], answer = [''p'', ''q'']\<rparr>"

definition batch_one_answer :: batch where
  "batch_one_answer = \<lparr>input = [''ab'', ''cd''], answer = [''x'']\<rparr>"

section \<open>Properties of the pattern and of the metric loop\<close>

lemma lazy_group_Some:
  "lazy_group cs = Some (g, r) \<Longrightarrow>
     cs = g @ CHR ''>'' # r \<and> CHR ''>'' \<notin> set g \<and> newline \<notin> set g"
  by (induction cs arbitrary: g r) (auto split: if_splits option.splits)

lemma lazy_group_complete:
  "newline \<notin> set g \<Longrightarrow> lazy_group (g @ CHR ''>'' # post) \<noteq> None"
  by (induction g) auto

lemma findall_bracketed:
  "g \<in> set (findall s) \<Longrightarrow>
     \<exists>pre post. s = pre @ CHR ''<'' # g @ CHR ''>'' # post
        \<and> CHR ''>'' \<notin> set g \<and> newline \<notin> set g"
proof (induction s rule: findall.induct)
  case 1
  then show ?case by simp
next
  case (2 c cs)
  show ?case
  proof (cases "c = CHR ''<''")
    case False
    with 2 obtain pre post where
      "cs = pre @ CHR ''<'' # g @ CHR ''>'' # post" "CHR ''>'' \<notin> set g" "newline \<notin> set g"
      by auto
    then have "c # cs = (c # pre) @ CHR ''<'' # g @ CHR ''>'' # post" by simp
    with \<open>CHR ''>'' \<notin> set g\<close> \<open>newline \<notin> set g\<close> show ?thesis by blast
  next
    case True
    show ?thesis
    proof (cases "lazy_group cs")
      case None
      with True 2 obtain pre post where
        "cs = pre @ CHR ''<'' # g @ CHR ''>'' # post" "CHR ''>'' \<notin> set g" "newline \<notin> set g"
        by auto
      then have "c # cs = (c # pre) @ CHR ''<'' # g @ CHR ''>'' # post" by simp
      with \<open>CHR ''>'' \<notin> set g\<close> \<open>newline \<notin> set g\<close> show ?thesis by blast
    next
      case (Some x)
      obtain g' r where x: "x = (g', r)" by (cases x)
      from Some x have split: "cs = g' @ CHR ''>'' # r" "CHR ''>'' \<notin> set g'" "newline \<notin> set g'"
        using lazy_group_Some by blast+
      from 2(4) True Some x have "g = g' \<or> g \<in> set (findall r)" by auto
      then show ?thesis
      proof
        assume "g = g'"
        with split True have "c # cs = [] @ CHR ''<'' # g @ CHR ''>'' # r" by simp
        with split \<open>g = g'\<close> show ?thesis by blast
      next
        assume "g \<in> set (findall r)"
        from 2(2) [OF True Some x [symmetric] this] obtain pre post where
          "r = pre @ CHR ''<'' # g @ CHR ''>'' # post" "CHR ''>'' \<notin> set g" "newline \<notin> set g"
          by blast
        with split have "c # cs = (c # g' @ CHR ''>'' # pre) @ CHR ''<'' # g @ CHR ''>'' # post"
          by simp
        with \<open>CHR ''>'' \<notin> set g\<close> \<open>newline \<notin> set g\<close> show ?thesis by blast
      qed
    qed
  qed
qed

lemma findall_finds:
  "newline \<notin> set g \<Longrightarrow> findall (pre @ CHR ''<'' # g @ CHR ''>'' # post) \<noteq> []"
proof (induction pre)
  case Nil
  then have "lazy_group (g @ CHR ''>'' # post) \<noteq> None" by (rule lazy_group_complete)
  then show ?case by (auto split: option.splits)
next
  case (Cons a pre)
  then show ?case by (auto split: option.splits)
qed

lemma line_feed_breaks_match: "findall broken_text = []"
  by (simp add: broken_text_def newline_def)

lemma findall_nonempty_iff: "findall s \<noteq> [] \<longleftrightarrow> has_bracketed s"
proof
  assume "findall s \<noteq> []"
  then have "hd (findall s) \<in> set (findall s)" by simp
  from findall_bracketed [OF this] show "has_bracketed s"
    unfolding has_bracketed_def by blast
next
  assume "has_bracketed s"
  then show "findall s \<noteq> []"
    unfolding has_bracketed_def using findall_finds by blast
qed

lemma extract_pair_Inr_iff:
  "extract_pair f predict lab = Inr (p, v) \<longleftrightarrow>
     (\<exists>gs. findall predict = gs @ [p]) \<and> (\<exists>l ls. findall lab = l # ls \<and> f l = Some v)"
proof (cases "findall predict = []")
  case True
  then show ?thesis by (simp add: extract_pair_def last_item_def)
next
  case False
  then have "(\<exists>gs. findall predict = gs @ [p]) \<longleftrightarrow> p = last (findall predict)"
    by (metis append_butlast_last_id last_snoc)
  with False show ?thesis
    by (auto simp: extract_pair_def last_item_def first_item_def
             split: list.splits option.splits)
qed

lemma extract_pair_Inl_iff:
  "extract_pair f predict lab = Inl e \<longleftrightarrow>
     (findall predict = [] \<and> e = IndexError)
     \<or> (findall predict \<noteq> [] \<and> findall lab = [] \<and> e = IndexError)
     \<or> (findall predict \<noteq> [] \<and> (\<exists>l ls. findall lab = l # ls \<and> f l = None) \<and> e = ValueError)"
  by (auto simp: extract_pair_def last_item_def first_item_def
           split: list.splits option.splits)

lemma extract_loop_Inr:
  "extract_loop f ps yt yp = Inr (a, b) \<Longrightarrow>
     \<exists>vs qs. a = yt @ vs \<and> b = yp @ map (float_or_zero f) qs
        \<and> length vs = length ps \<and> length qs = length ps
        \<and> (\<forall>i<length ps. extract_pair f (fst (ps ! i)) (snd (ps ! i)) = Inr (qs ! i, vs ! i))"
proof (induction ps arbitrary: yt yp)
  case Nil
  then show ?case by simp
next
  case (Cons x ps)
  obtain g l where x: "x = (g, l)" by (cases x)
  from Cons.prems x obtain p v where
    pair: "extract_pair f g l = Inr (p, v)" and
    rest: "extract_loop f ps (yt @ [v]) (yp @ [float_or_zero f p]) = Inr (a, b)"
    by (auto split: sum.splits)
  from Cons.IH [OF rest] obtain vs qs where
    a: "a = (yt @ [v]) @ vs" and b: "b = (yp @ [float_or_zero f p]) @ map (float_or_zero f) qs" and
    len: "length vs = length ps" "length qs = length ps" and
    ih: "\<forall>i<length ps. extract_pair f (fst (ps ! i)) (snd (ps ! i)) = Inr (qs ! i, vs ! i)"
    by blast
  have "\<forall>i<length (x # ps).
          extract_pair f (fst ((x # ps) ! i)) (snd ((x # ps) ! i)) = Inr ((p # qs) ! i, (v # vs) ! i)"
  proof (intro allI impI)
    fix i assume "i < length (x # ps)"
    then show "extract_pair f (fst ((x # ps) ! i)) (snd ((x # ps) ! i))
                 = Inr ((p # qs) ! i, (v # vs) ! i)"
      using pair x ih by (cases i) simp_all
  qed
  moreover have "a = yt @ (v # vs)" "b = yp @ map (float_or_zero f) (p # qs)"
    using a b by simp_all
  moreover have "length (v # vs) = length (x # ps)" "length (p # qs) = length (x # ps)"
    using len by simp_all
  ultimately show ?case by blast
qed

lemma extract_loop_Inl:
  "extract_loop f ps yt yp = Inl e \<Longrightarrow>
     \<exists>i<length ps. extract_pair f (fst (ps ! i)) (snd (ps ! i)) = Inl e"
proof (induction ps arbitrary: yt yp)
  case Nil
  then show ?case by simp
next
  case (Cons x ps)
  obtain g l where x: "x = (g, l)" by (cases x)
  show ?case
  proof (cases "extract_pair f g l")
    case (Inl e')
    with Cons.prems x have "extract_pair f (fst ((x # ps) ! 0)) (snd ((x # ps) ! 0)) = Inl e"
      by simp
    then show ?thesis by blast
  next
    case (Inr pv)
    obtain p v where "pv = (p, v)" by (cases pv)
    with Inr Cons.prems x have "extract_loop f ps (yt @ [v]) (yp @ [float_or_zero f p]) = Inl e"
      by simp
    from Cons.IH [OF this] obtain i where
      "i < length ps" "extract_pair f (fst (ps ! i)) (snd (ps ! i)) = Inl e" by blast
    then have "Suc i < length (x # ps)"
      "extract_pair f (fst ((x # ps) ! Suc i)) (snd ((x # ps) ! Suc i)) = Inl e" by simp_all
    then show ?thesis by blast
  qed
qed

lemma extract_loop_fails:
  "i < length ps \<Longrightarrow> isl (extract_pair f (fst (ps ! i)) (snd (ps ! i))) \<Longrightarrow>
     isl (extract_loop f ps yt yp)"
proof (cases "extract_loop f ps yt yp")
  case (Inl e)
  then show ?thesis by simp
next
  case (Inr ab)
  assume i: "i < length ps" and bad: "isl (extract_pair f (fst (ps ! i)) (snd (ps ! i)))"
  obtain a b where "ab = (a, b)" by (cases ab)
  with Inr have "extract_loop f ps yt yp = Inr (a, b)" by simp
  from extract_loop_Inr [OF this] i have "\<not> isl (extract_pair f (fst (ps ! i)) (snd (ps ! i)))"
    by auto
  with bad show ?thesis by simp
qed

lemma all_finite_map: "list_all is_finite xs \<Longrightarrow> xs = map Finite (map real_of xs)"
proof (induction xs)
  case Nil
  then show ?case by simp
next
  case (Cons x xs)
  then show ?case by (cases x) simp_all
qed

lemma sum_list_map2_nth:
  "length xs = length ys \<Longrightarrow>
     sum_list (map2 f xs ys) = (\<Sum>i<length xs. (f (xs ! i) (ys ! i) :: real))"
  by (simp add: sum_list_sum_nth atLeast0LessThan)

lemma mean_absolute_error_Inr:
  assumes "mean_absolute_error (map Finite yt) (map Finite yp) = Inr m"
  shows "yt \<noteq> [] \<and> length yp = length yt \<and> m = spec_mae yt yp"
proof -
  from assms have len: "length yt = length yp" and ne: "yt \<noteq> []"
    by (auto simp: mean_absolute_error_def split: if_splits)
  from assms len ne have
    "m = sum_list (map2 (\<lambda>t p. \<bar>real_of p - real_of t\<bar>) (map Finite yt) (map Finite yp))
           / real (length yt)"
    by (auto simp: mean_absolute_error_def split: if_splits)
  also have "sum_list (map2 (\<lambda>t p. \<bar>real_of p - real_of t\<bar>) (map Finite yt) (map Finite yp))
               = (\<Sum>i<length yt. \<bar>yt ! i - yp ! i\<bar>)"
    using len by (simp add: sum_list_map2_nth abs_minus_commute)
  finally show ?thesis using len ne by (simp add: spec_mae_def)
qed


lemmas plain_decimal_defs =
  plain_decimal_def unsigned_decimal_def decimal_value_def nat_of_digits_def digit_of_def
  is_digit_def

lemmas extract_defs =
  extract_pair_def last_item_def first_item_def float_or_zero_def newline_def

lemma demo_loop:
  "extract_loop plain_decimal (zip (generated_text demo_content) (label demo_content)) [] []
     = Inr ([Finite 2, Finite 4], [Finite (3 / 2), Finite 0])"
  by (simp add: demo_content_def extract_defs plain_decimal_defs)

lemma on_validation_epoch_end_Some:
  "val_content s = Some c \<Longrightarrow> on_validation_epoch_end pyfloat s = epoch_metric pyfloat c"
  by (simp add: on_validation_epoch_end_def)

lemma on_test_epoch_end_Some:
  "test_content s = Some c \<Longrightarrow> on_test_epoch_end pyfloat s = epoch_metric pyfloat c"
  by (simp add: on_test_epoch_end_def)

lemma state_with_contents:
  "val_content (state_with c) = Some c" "test_content (state_with c) = Some c"
  by (simp_all add: state_with_def)

text \<open>The contents collected by the steps pair every generated text with a label.\<close>

lemma collect_lengths:
  "collect texts ps k (Some c) = Inr r \<Longrightarrow>
     length (generated_text c) = length (label c) \<Longrightarrow>
     \<exists>c'. r = Some c' \<and> length (generated_text c') = length (label c')"
  by (induction ps arbitrary: k c) (auto split: if_splits)

section \<open>The evaluation step\<close>

text \<open>
  C3. The evaluation step uses the pattern \<open><(.*?)>\<close> on the generated text and on the
  label. The first two statements of the loop body succeed with \<open>(p, v)\<close> exactly when
  \<open>p\<close> is the last group found in the generated text and \<open>v\<close> is the float read from the
  first group found in the label. When the loop succeeds, every pair of the epoch went
  through these statements: the \<open>i\<close>-th reference value is the one of the \<open>i\<close>-th pair, and
  the \<open>i\<close>-th prediction is its last group, turned into a number. Every group found in a
  text stands there between \<open><\<close> and \<open>>\<close> and holds neither \<open>>\<close> nor a line feed.
\<close>

theorem extraction_last_and_first_group:
  "(extract_pair pyfloat predict lab = Inr (p, v) \<longleftrightarrow>
      (\<exists>gs. findall predict = gs @ [p]) \<and> (\<exists>l ls. findall lab = l # ls \<and> pyfloat l = Some v))
   \<and> (extract_loop pyfloat (zip (generated_text c) (label c)) [] [] = Inr (y_true, y_pre) \<longrightarrow>
        length y_true = length (zip (generated_text c) (label c))
        \<and> length y_pre = length (zip (generated_text c) (label c))
        \<and> (\<forall>i<length (zip (generated_text c) (label c)).
              \<exists>q. extract_pair pyfloat (generated_text c ! i) (label c ! i) = Inr (q, y_true ! i)
                   \<and> y_pre ! i = float_or_zero pyfloat q))
   \<and> (\<forall>g \<in> set (findall text).
        \<exists>pre post. text = pre @ CHR ''<'' # g @ CHR ''>'' # post
           \<and> CHR ''>'' \<notin> set g \<and> newline \<notin> set g)"
proof (intro conjI impI ballI)
  show "extract_pair pyfloat predict lab = Inr (p, v) \<longleftrightarrow>
      (\<exists>gs. findall predict = gs @ [p]) \<and> (\<exists>l ls. findall lab = l # ls \<and> pyfloat l = Some v)"
    by (rule extract_pair_Inr_iff)
next
  fix g assume "g \<in> set (findall text)"
  then show "\<exists>pre post. text = pre @ CHR ''<'' # g @ CHR ''>'' # post
           \<and> CHR ''>'' \<notin> set g \<and> newline \<notin> set g"
    by (rule findall_bracketed)
next
  let ?ps = "zip (generated_text c) (label c)"
  assume loop: "extract_loop pyfloat ?ps [] [] = Inr (y_true, y_pre)"
  from extract_loop_Inr [OF loop] obtain vs qs where
    eq: "y_true = vs" "y_pre = map (float_or_zero pyfloat) qs" and
    len: "length vs = length ?ps" "length qs = length ?ps" and
    all: "\<forall>i<length ?ps. extract_pair pyfloat (fst (?ps ! i)) (snd (?ps ! i)) = Inr (qs ! i, vs ! i)"
    by auto
  show "length y_true = length ?ps" using eq len by simp
  show "length y_pre = length ?ps" using eq len by simp
  show "\<forall>i<length ?ps.
          \<exists>q. extract_pair pyfloat (generated_text c ! i) (label c ! i) = Inr (q, y_true ! i)
               \<and> y_pre ! i = float_or_zero pyfloat q"
  proof (intro allI impI)
    fix i assume i: "i < length ?ps"
    with all have "extract_pair pyfloat (generated_text c ! i) (label c ! i) = Inr (qs ! i, vs ! i)"
      by simp
    moreover from i eq len have "y_pre ! i = float_or_zero pyfloat (qs ! i)" by simp
    ultimately show "\<exists>q. extract_pair pyfloat (generated_text c ! i) (label c ! i) = Inr (q, y_true ! i)
               \<and> y_pre ! i = float_or_zero pyfloat q"
      using eq by blast
  qed
qed

theorem extraction_last_and_first_group_witness:
  "extract_loop plain_decimal (zip (generated_text demo_content) (label demo_content)) [] []
     = Inr ([Finite 2, Finite 4], [Finite (3 / 2), Finite 0])
   \<and> ''1.5'' \<in> set (findall ''a <3> b <1.5>'')
   \<and> extract_pair plain_decimal ''a <3> b <1.5>'' ''<2> <9>'' = Inr (''1.5'', Finite 2)
   \<and> (\<exists>q. extract_pair plain_decimal (generated_text demo_content ! 0) (label demo_content ! 0)
                = Inr (q, [Finite 2, Finite 4] ! 0)
            \<and> [Finite (3 / 2), Finite 0] ! 0 = float_or_zero plain_decimal q)
   \<and> (\<exists>q. extract_pair plain_decimal (generated_text demo_content ! 1) (label demo_content ! 1)
                = Inr (q, [Finite 2, Finite 4] ! 1)
            \<and> [Finite (3 / 2), Finite 0] ! 1 = float_or_zero plain_decimal q)
   \<and> (\<exists>pre post. ''a <3> b <1.5>'' = pre @ CHR ''<'' # ''1.5'' @ CHR ''>'' # post
          \<and> CHR ''>'' \<notin> set ''1.5'' \<and> newline \<notin> set ''1.5'')"
proof -
  note T = extraction_last_and_first_group
         [of plain_decimal "''a <3> b <1.5>''" "''<2> <9>''" "''1.5''" "Finite 2" demo_content
             "[Finite 2, Finite 4]" "[Finite (3 / 2), Finite 0]" "''a <3> b <1.5>''"]
  have g: "''1.5'' \<in> set (findall ''a <3> b <1.5>'')"
    by (simp add: newline_def)
  have "findall ''a <3> b <1.5>'' = [''3''] @ [''1.5'']"
       "findall ''<2> <9>'' = ''2'' # [''9'']" "plain_decimal ''2'' = Some (Finite 2)"
    by (simp_all add: newline_def plain_decimal_defs)
  then have "(\<exists>gs. findall ''a <3> b <1.5>'' = gs @ [''1.5''])
     \<and> (\<exists>l ls. findall ''<2> <9>'' = l # ls \<and> plain_decimal l = Some (Finite 2))"
    by blast
  with T have pair: "extract_pair plain_decimal ''a <3> b <1.5>'' ''<2> <9>'' = Inr (''1.5'', Finite 2)"
    by blast
  from T demo_loop have every:
    "\<forall>i<length (zip (generated_text demo_content) (label demo_content)).
         \<exists>q. extract_pair plain_decimal (generated_text demo_content ! i) (label demo_content ! i)
                = Inr (q, [Finite 2, Finite 4] ! i)
            \<and> [Finite (3 / 2), Finite 0] ! i = float_or_zero plain_decimal q"
    by blast
  from T g have "\<exists>pre post. ''a <3> b <1.5>'' = pre @ CHR ''<'' # ''1.5'' @ CHR ''>'' # post
          \<and> CHR ''>'' \<notin> set ''1.5'' \<and> newline \<notin> set ''1.5''"
    by blast
  moreover have "0 < length (zip (generated_text demo_content) (label demo_content))"
    "1 < length (zip (generated_text demo_content) (label demo_content))"
    by (simp_all add: demo_content_def)
  ultimately show ?thesis using demo_loop g pair every by blast
qed

text \<open>
  C4. When \<open>on_validation_epoch_end\<close> or \<open>on_test_epoch_end\<close> logs a metric, the two lists
  built by the loop hold finite numbers, are not empty and have the same length \<open>n\<close>, and
  the value logged is \<open>(1/n) * (\<Sum>i<n. |y_true[i] - y_pre[i]|)\<close>. Arithmetic is exact: the
  rounding of floats is not modelled.
\<close>

theorem logged_metric_is_mean_absolute_error:
  "(on_validation_epoch_end pyfloat s = Inr mae \<longrightarrow>
      (\<exists>c y_true y_pre. val_content s = Some c
          \<and> extract_loop pyfloat (zip (generated_text c) (label c)) [] []
              = Inr (map Finite y_true, map Finite y_pre)
          \<and> y_true \<noteq> [] \<and> length y_pre = length y_true \<and> mae = spec_mae y_true y_pre))
   \<and> (on_test_epoch_end pyfloat s = Inr mae \<longrightarrow>
      (\<exists>c y_true y_pre. test_content s = Some c
          \<and> extract_loop pyfloat (zip (generated_text c) (label c)) [] []
              = Inr (map Finite y_true, map Finite y_pre)
          \<and> y_true \<noteq> [] \<and> length y_pre = length y_true \<and> mae = spec_mae y_true y_pre))"
proof -
  have metric: "\<exists>y_true y_pre.
          extract_loop pyfloat (zip (generated_text c) (label c)) [] []
              = Inr (map Finite y_true, map Finite y_pre)
          \<and> y_true \<noteq> [] \<and> length y_pre = length y_true \<and> mae = spec_mae y_true y_pre"
    if m: "epoch_metric pyfloat c = Inr mae" for c
  proof -
    from m obtain yt yp where
      loop: "extract_loop pyfloat (zip (generated_text c) (label c)) [] [] = Inr (yt, yp)" and
      mae: "mean_absolute_error yt yp = Inr mae"
      by (auto simp: epoch_metric_def split: sum.splits)
    from mae have all_fin: "list_all is_finite yt" "list_all is_finite yp"
      by (auto simp: mean_absolute_error_def split: if_splits)
    note fin = all_finite_map [OF all_fin(1)] all_finite_map [OF all_fin(2)]
    with mae have "mean_absolute_error (map Finite (map real_of yt)) (map Finite (map real_of yp)) = Inr mae"
      by simp
    from mean_absolute_error_Inr [OF this] loop fin show ?thesis by metis
  qed
  show ?thesis
  proof (intro conjI impI)
    assume v: "on_validation_epoch_end pyfloat s = Inr mae"
    then obtain c where c: "val_content s = Some c"
      by (auto simp: on_validation_epoch_end_def split: option.splits)
    with v have "epoch_metric pyfloat c = Inr mae" by (simp add: on_validation_epoch_end_Some)
    from metric [OF this] c
    show "\<exists>c y_true y_pre. val_content s = Some c
          \<and> extract_loop pyfloat (zip (generated_text c) (label c)) [] []
              = Inr (map Finite y_true, map Finite y_pre)
          \<and> y_true \<noteq> [] \<and> length y_pre = length y_true \<and> mae = spec_mae y_true y_pre"
      by blast
  next
    assume v: "on_test_epoch_end pyfloat s = Inr mae"
    then obtain c where c: "test_content s = Some c"
      by (auto simp: on_test_epoch_end_def split: option.splits)
    with v have "epoch_metric pyfloat c = Inr mae" by (simp add: on_test_epoch_end_Some)
    from metric [OF this] c
    show "\<exists>c y_true y_pre. test_content s = Some c
          \<and> extract_loop pyfloat (zip (generated_text c) (label c)) [] []
              = Inr (map Finite y_true, map Finite y_pre)
          \<and> y_true \<noteq> [] \<and> length y_pre = length y_true \<and> mae = spec_mae y_true y_pre"
      by blast
  qed
qed

lemma demo_metric: "epoch_metric plain_decimal demo_content = Inr (9 / 4)"
  by (simp add: epoch_metric_def demo_loop mean_absolute_error_def)

theorem logged_metric_is_mean_absolute_error_witness:
  "on_validation_epoch_end plain_decimal (state_with demo_content) = Inr (9 / 4)
   \<and> on_test_epoch_end plain_decimal (state_with demo_content) = Inr (9 / 4)
   \<and> (\<exists>c y_true y_pre. val_content (state_with demo_content) = Some c
          \<and> extract_loop plain_decimal (zip (generated_text c) (label c)) [] []
              = Inr (map Finite y_true, map Finite y_pre)
          \<and> y_true \<noteq> [] \<and> length y_pre = length y_true \<and> 9 / 4 = spec_mae y_true y_pre)
   \<and> (\<exists>c y_true y_pre. test_content (state_with demo_content) = Some c
          \<and> extract_loop plain_decimal (zip (generated_text c) (label c)) [] []
              = Inr (map Finite y_true, map Finite y_pre)
          \<and> y_true \<noteq> [] \<and> length y_pre = length y_true \<and> 9 / 4 = spec_mae y_true y_pre)"
proof -
  have v: "on_validation_epoch_end plain_decimal (state_with demo_content) = Inr (9 / 4)"
    by (simp add: on_validation_epoch_end_Some [OF state_with_contents(1)] demo_metric)
  have t: "on_test_epoch_end plain_decimal (state_with demo_content) = Inr (9 / 4)"
    by (simp add: on_test_epoch_end_Some [OF state_with_contents(2)] demo_metric)
  from logged_metric_is_mean_absolute_error [of plain_decimal "state_with demo_content" "9 / 4"] v t
  show ?thesis by blast
qed

lemma epoch_metric_fails:
  "i < length (generated_text c) \<Longrightarrow> i < length (label c) \<Longrightarrow>
     isl (extract_pair pyfloat (generated_text c ! i) (label c ! i)) \<Longrightarrow>
     isl (epoch_metric pyfloat c)"
proof -
  assume i: "i < length (generated_text c)" "i < length (label c)"
    and bad: "isl (extract_pair pyfloat (generated_text c ! i) (label c ! i))"
  let ?ps = "zip (generated_text c) (label c)"
  from i have "i < length ?ps" by simp
  moreover from i bad have "isl (extract_pair pyfloat (fst (?ps ! i)) (snd (?ps ! i)))" by simp
  ultimately have "isl (extract_loop pyfloat ?ps [] [])" by (rule extract_loop_fails)
  then show ?thesis by (auto simp: epoch_metric_def split: sum.splits)
qed

lemma epoch_metric_IndexError:
  assumes "epoch_metric pyfloat c = Inl IndexError"
  shows "\<exists>i. i < length (generated_text c) \<and> i < length (label c)
           \<and> (findall (generated_text c ! i) = [] \<or> findall (label c ! i) = [])"
proof -
  let ?ps = "zip (generated_text c) (label c)"
  have "mean_absolute_error yt yp \<noteq> Inl IndexError" for yt yp
    by (simp add: mean_absolute_error_def)
  with assms have "extract_loop pyfloat ?ps [] [] = Inl IndexError"
    by (auto simp: epoch_metric_def split: sum.splits)
  from extract_loop_Inl [OF this] obtain i where
    i: "i < length ?ps" and "extract_pair pyfloat (fst (?ps ! i)) (snd (?ps ! i)) = Inl IndexError"
    by blast
  then have "extract_pair pyfloat (generated_text c ! i) (label c ! i) = Inl IndexError" by simp
  then have "findall (generated_text c ! i) = [] \<or> findall (label c ! i) = []"
    by (auto simp: extract_pair_Inl_iff)
  with i show ?thesis by auto
qed

text \<open>
  C9. Take a pair of the epoch whose generated text has a bracketed match. If \<open>float\<close>
  rejects the last group, the prediction the loop appends for this pair is 0. A
  \<open>ValueError\<close> comes out of the first two statements of the body exactly when the label
  has a first group that \<open>float\<close> rejects: the \<open>try\<close> covers the prediction only. In that
  case the metric computation fails, in \<open>on_validation_epoch_end\<close> and in
  \<open>on_test_epoch_end\<close>.
\<close>

theorem unparsable_prediction_counts_as_zero:
  assumes "i < length (generated_text c)" and "i < length (label c)"
    and "findall (generated_text c ! i) \<noteq> []"
  shows "(pyfloat (last (findall (generated_text c ! i))) = None \<longrightarrow>
            extract_loop pyfloat (zip (generated_text c) (label c)) [] [] = Inr (y_true, y_pre) \<longrightarrow>
            y_pre ! i = Finite 0)
     \<and> (extract_pair pyfloat (generated_text c ! i) (label c ! i) = Inl ValueError \<longleftrightarrow>
          (\<exists>l ls. findall (label c ! i) = l # ls \<and> pyfloat l = None))
     \<and> ((\<exists>l ls. findall (label c ! i) = l # ls \<and> pyfloat l = None) \<longrightarrow>
          isl (epoch_metric pyfloat c)
          \<and> (val_content s = Some c \<longrightarrow> isl (on_validation_epoch_end pyfloat s))
          \<and> (test_content s = Some c \<longrightarrow> isl (on_test_epoch_end pyfloat s)))"
proof (intro conjI impI)
  let ?ps = "zip (generated_text c) (label c)"
  assume none: "pyfloat (last (findall (generated_text c ! i))) = None"
    and loop: "extract_loop pyfloat ?ps [] [] = Inr (y_true, y_pre)"
  from extract_loop_Inr [OF loop] obtain vs qs where
    pre: "y_pre = map (float_or_zero pyfloat) qs" and len: "length qs = length ?ps" and
    all: "\<forall>i<length ?ps. extract_pair pyfloat (fst (?ps ! i)) (snd (?ps ! i)) = Inr (qs ! i, vs ! i)"
    by auto
  from assms have i: "i < length ?ps" by simp
  with all have "extract_pair pyfloat (generated_text c ! i) (label c ! i) = Inr (qs ! i, vs ! i)"
    by simp
  then have "\<exists>gs. findall (generated_text c ! i) = gs @ [qs ! i]"
    by (simp add: extract_pair_Inr_iff)
  then have "qs ! i = last (findall (generated_text c ! i))" by auto
  with none have "float_or_zero pyfloat (qs ! i) = Finite 0" by (simp add: float_or_zero_def)
  with pre len i show "y_pre ! i = Finite 0" by simp
next
  show "extract_pair pyfloat (generated_text c ! i) (label c ! i) = Inl ValueError \<longleftrightarrow>
          (\<exists>l ls. findall (label c ! i) = l # ls \<and> pyfloat l = None)"
    using assms(3) by (auto simp: extract_pair_Inl_iff)
next
  assume bad: "\<exists>l ls. findall (label c ! i) = l # ls \<and> pyfloat l = None"
  with assms(3) have "extract_pair pyfloat (generated_text c ! i) (label c ! i) = Inl ValueError"
    by (auto simp: extract_pair_Inl_iff)
  then have "isl (extract_pair pyfloat (generated_text c ! i) (label c ! i))" by simp
  with assms(1,2) show fails: "isl (epoch_metric pyfloat c)" by (rule epoch_metric_fails)
  {
    assume "val_content s = Some c"
    with fails show "isl (on_validation_epoch_end pyfloat s)"
      by (simp add: on_validation_epoch_end_Some)
  }
  {
    assume "test_content s = Some c"
    with fails show "isl (on_test_epoch_end pyfloat s)"
      by (simp add: on_test_epoch_end_Some)
  }
qed

theorem unparsable_prediction_counts_as_zero_witness:
  "findall (generated_text demo_content ! 1) \<noteq> []
   \<and> plain_decimal (last (findall (generated_text demo_content ! 1))) = None
   \<and> extract_loop plain_decimal (zip (generated_text demo_content) (label demo_content)) [] []
       = Inr ([Finite 2, Finite 4], [Finite (3 / 2), Finite 0])
   \<and> [Finite (3 / 2), Finite 0] ! 1 = Finite 0
   \<and> findall (generated_text unparsable_label_content ! 0) \<noteq> []
   \<and> extract_pair plain_decimal (generated_text unparsable_label_content ! 0)
        (label unparsable_label_content ! 0) = Inl ValueError
   \<and> isl (epoch_metric plain_decimal unparsable_label_content)
   \<and> isl (on_validation_epoch_end plain_decimal (state_with unparsable_label_content))
   \<and> isl (on_test_epoch_end plain_decimal (state_with unparsable_label_content))"
proof -
  have a: "1 < length (generated_text demo_content)" "1 < length (label demo_content)"
    "findall (generated_text demo_content ! 1) \<noteq> []"
    "plain_decimal (last (findall (generated_text demo_content ! 1))) = None"
    by (simp_all add: demo_content_def newline_def plain_decimal_defs)
  note A = unparsable_prediction_counts_as_zero
             [OF a(1,2,3), of plain_decimal "[Finite 2, Finite 4]" "[Finite (3 / 2), Finite 0]"]
  from A a(4) demo_loop have zero: "[Finite (3 / 2), Finite 0] ! 1 = Finite 0" by blast
  have b: "0 < length (generated_text unparsable_label_content)"
    "0 < length (label unparsable_label_content)"
    "findall (generated_text unparsable_label_content ! 0) \<noteq> []"
    by (simp_all add: unparsable_label_content_def newline_def)
  have "findall (label unparsable_label_content ! 0) = ''one'' # []" "plain_decimal ''one'' = None"
    by (simp_all add: unparsable_label_content_def newline_def plain_decimal_defs)
  then have bad: "\<exists>l ls. findall (label unparsable_label_content ! 0) = l # ls \<and> plain_decimal l = None"
    by blast
  note B = unparsable_prediction_counts_as_zero
             [OF b, of plain_decimal _ _ "state_with unparsable_label_content"]
  from B bad state_with_contents [of unparsable_label_content]
  have "extract_pair plain_decimal (generated_text unparsable_label_content ! 0)
          (label unparsable_label_content ! 0) = Inl ValueError"
    "isl (epoch_metric plain_decimal unparsable_label_content)"
    "isl (on_validation_epoch_end plain_decimal (state_with unparsable_label_content))"
    "isl (on_test_epoch_end plain_decimal (state_with unparsable_label_content))"
    by blast+
  with a demo_loop zero b show ?thesis by blast
qed

text \<open>
  C10, as stated, fails: a \<open><\<close> followed later by a \<open>>\<close> is not enough, since the dot of
  the pattern does not match a line feed. With a generated text whose two brackets have
  a line feed between them, every text and every label contains a \<open><...>\<close> substring, and
  the computation raises \<open>IndexError\<close>.
\<close>

theorem angle_pair_across_lines_raises:
  "generated_text line_feed_content = [broken_text]
   \<and> label line_feed_content = [''<1>'']
   \<and> contains_angle_pair broken_text
   \<and> contains_angle_pair ''<1>''
   \<and> on_validation_epoch_end plain_decimal (state_with line_feed_content) = Inl IndexError
   \<and> on_test_epoch_end plain_decimal (state_with line_feed_content) = Inl IndexError"
proof -
  have "broken_text = [] @ CHR ''<'' # [CHR ''1'', newline] @ CHR ''>'' # []"
    by (simp add: broken_text_def)
  then have a: "contains_angle_pair broken_text"
    unfolding contains_angle_pair_def by blast
  have "''<1>'' = [] @ CHR ''<'' # ''1'' @ CHR ''>'' # []" by simp
  then have b: "contains_angle_pair ''<1>''"
    unfolding contains_angle_pair_def by blast
  have "epoch_metric plain_decimal line_feed_content = Inl IndexError"
    by (simp add: epoch_metric_def line_feed_content_def extract_pair_def last_item_def
          line_feed_breaks_match)
  then have "on_validation_epoch_end plain_decimal (state_with line_feed_content) = Inl IndexError"
    "on_test_epoch_end plain_decimal (state_with line_feed_content) = Inl IndexError"
    by (simp_all add: on_validation_epoch_end_Some on_test_epoch_end_Some state_with_contents)
  with a b show ?thesis by (simp add: line_feed_content_def)
qed

text \<open>
  C10, amended. When every generated text and every label collected has a bracketed
  match (a \<open><\<close>, then characters without a line feed, then a \<open>>\<close>), the epoch-end
  computation raises no \<open>IndexError\<close>. When one of them (each text paired with a label)
  has none, the computation fails. The text \<open>no answer\<close> has no match: indexing its
  matches with \<open>[-1]\<close> raises \<open>IndexError\<close>, and so does the computation on it, whatever
  \<open>float\<close> does.
\<close>

theorem epoch_end_total_only_with_brackets:
  "(val_content s = Some c \<longrightarrow>
      (all_bracketed c \<longrightarrow> on_validation_epoch_end pyfloat s \<noteq> Inl IndexError)
      \<and> (length (generated_text c) = length (label c) \<and> \<not> all_bracketed c \<longrightarrow>
           isl (on_validation_epoch_end pyfloat s)))
   \<and> (test_content s = Some c \<longrightarrow>
      (all_bracketed c \<longrightarrow> on_test_epoch_end pyfloat s \<noteq> Inl IndexError)
      \<and> (length (generated_text c) = length (label c) \<and> \<not> all_bracketed c \<longrightarrow>
           isl (on_test_epoch_end pyfloat s)))
   \<and> \<not> has_bracketed ''no answer''
   \<and> last_item (findall ''no answer'') = Inl IndexError
   \<and> epoch_metric pyfloat
        \<lparr>content_input = [''q''], generated_text = [''no answer''], label = [''<1>'']\<rparr>
       = Inl IndexError"
proof -
  have ok: "epoch_metric pyfloat c \<noteq> Inl IndexError" if "all_bracketed c"
  proof
    assume "epoch_metric pyfloat c = Inl IndexError"
    from epoch_metric_IndexError [OF this] obtain i where
      i: "i < length (generated_text c)" "i < length (label c)" and
      e: "findall (generated_text c ! i) = [] \<or> findall (label c ! i) = []"
      by blast
    from i have "generated_text c ! i \<in> set (generated_text c)" "label c ! i \<in> set (label c)"
      by simp_all
    with that have "has_bracketed (generated_text c ! i)" "has_bracketed (label c ! i)"
      by (simp_all add: all_bracketed_def)
    with e show False by (simp add: findall_nonempty_iff [symmetric])
  qed
  have fails: "isl (epoch_metric pyfloat c)"
    if len: "length (generated_text c) = length (label c)" and no: "\<not> all_bracketed c"
  proof -
    from no have "(\<exists>t \<in> set (generated_text c). findall t = [])
                    \<or> (\<exists>l \<in> set (label c). findall l = [])"
      by (auto simp: all_bracketed_def findall_nonempty_iff [symmetric])
    then obtain i where i: "i < length (generated_text c)" "i < length (label c)" and
      e: "findall (generated_text c ! i) = [] \<or> findall (label c ! i) = []"
      using len by (metis in_set_conv_nth)
    from e have "isl (extract_pair pyfloat (generated_text c ! i) (label c ! i))"
      by (auto simp: extract_pair_def last_item_def first_item_def)
    with i show ?thesis by (rule epoch_metric_fails)
  qed
  have none: "findall ''no answer'' = []" by simp
  then have "\<not> has_bracketed ''no answer''" by (simp add: findall_nonempty_iff [symmetric])
  moreover from none have "last_item (findall ''no answer'') = Inl IndexError"
    by (simp add: last_item_def)
  moreover from none have "epoch_metric pyfloat
        \<lparr>content_input = [''q''], generated_text = [''no answer''], label = [''<1>'']\<rparr>
       = Inl IndexError"
    by (simp add: epoch_metric_def extract_pair_def last_item_def)
  ultimately show ?thesis
    using ok fails by (simp add: on_validation_epoch_end_Some on_test_epoch_end_Some)
qed

theorem epoch_end_total_only_with_brackets_witness:
  "all_bracketed demo_content
   \<and> on_validation_epoch_end plain_decimal (state_with demo_content) \<noteq> Inl IndexError
   \<and> on_test_epoch_end plain_decimal (state_with demo_content) \<noteq> Inl IndexError
   \<and> length (generated_text no_match_content) = length (label no_match_content)
   \<and> \<not> all_bracketed no_match_content
   \<and> isl (on_validation_epoch_end plain_decimal (state_with no_match_content))
   \<and> isl (on_test_epoch_end plain_decimal (state_with no_match_content))"
proof -
  have good: "all_bracketed demo_content"
    by (simp add: all_bracketed_def demo_content_def findall_nonempty_iff [symmetric] newline_def)
  have len: "length (generated_text no_match_content) = length (label no_match_content)"
    by (simp add: no_match_content_def)
  have bad: "\<not> all_bracketed no_match_content"
    by (simp add: all_bracketed_def no_match_content_def findall_nonempty_iff [symmetric])
  from epoch_end_total_only_with_brackets [of "state_with demo_content" demo_content plain_decimal]
       epoch_end_total_only_with_brackets [of "state_with no_match_content" no_match_content plain_decimal]
       state_with_contents good len bad
  show ?thesis by blast
qed

section \<open>The training step\<close>

lemma same_shape_lengths:
  "same_shape t u \<Longrightarrow> length t = length u \<and> (\<forall>r<length t. length (t ! r) = length (u ! r))"
  unfolding same_shape_def by (metis length_map nth_map)

lemma masked_fill_length:
  "same_shape t u \<Longrightarrow> length (masked_fill t (eq_scalar u v) w) = length t"
  by (simp add: masked_fill_def eq_scalar_def same_shape_lengths)

lemma masked_fill_row:
  assumes "same_shape t u" and "r < length t"
  shows "masked_fill t (eq_scalar u v) w ! r
           = map2 (\<lambda>x m. if m then w else x) (t ! r) (map (\<lambda>x. x = v) (u ! r))"
proof -
  from assms same_shape_lengths [OF assms(1)] have "r < length u" by simp
  with assms(2) show ?thesis by (simp add: masked_fill_def eq_scalar_def)
qed

lemma masked_fill_nth:
  assumes "same_shape t u" and "r < length t" and "i < length (t ! r)"
  shows "length (masked_fill t (eq_scalar u v) w ! r) = length (t ! r)"
    and "masked_fill t (eq_scalar u v) w ! r ! i = (if u ! r ! i = v then w else t ! r ! i)"
proof -
  from same_shape_lengths [OF assms(1)] assms(2) have len: "length (u ! r) = length (t ! r)"
    by simp
  show "length (masked_fill t (eq_scalar u v) w ! r) = length (t ! r)"
    using len by (simp add: masked_fill_row [OF assms(1,2)])
  show "masked_fill t (eq_scalar u v) w ! r ! i = (if u ! r ! i = v then w else t ! r ! i)"
    using len assms(3) by (simp add: masked_fill_row [OF assms(1,2)])
qed

lemma masked_fill_same_shape:
  assumes "same_shape t u"
  shows "same_shape (masked_fill t (eq_scalar u v) w) t"
proof -
  have "map length (masked_fill t (eq_scalar u v) w) = map length t"
  proof (rule nth_equalityI)
    show "length (map length (masked_fill t (eq_scalar u v) w)) = length (map length t)"
      using assms by (simp add: masked_fill_length)
  next
    fix r assume "r < length (map length (masked_fill t (eq_scalar u v) w))"
    then have r: "r < length t" using assms by (simp add: masked_fill_length)
    from same_shape_lengths [OF assms] r have "length (u ! r) = length (t ! r)" by simp
    with r show "map length (masked_fill t (eq_scalar u v) w) ! r = map length t ! r"
      using assms by (simp add: masked_fill_length masked_fill_row)
  qed
  then show ?thesis by (simp add: same_shape_def)
qed

lemma same_shape_refl: "same_shape t t"
  by (simp add: same_shape_def)

lemma same_shape_trans: "same_shape t u \<Longrightarrow> same_shape u v \<Longrightarrow> same_shape t v"
  by (simp add: same_shape_def)

lemma forward_tensors_Inr:
  assumes "forward_tensors lib s b = Inr (enc, target_ids)"
  shows "\<exists>tok m pad. tokenizer s = Some tok \<and> model s = Some m \<and> pad_token_id tok = Some pad
           \<and> enc = tokenize_pairs lib tok (zip (input b) (answer b)) (max_input_length (hparams s))
           \<and> target_ids = masked_fill (masked_fill (input_ids enc) (eq_scalar (input_ids enc) pad) (- 100))
                             (eq_scalar (token_type_ids enc) 0) (- 100)"
  using assms by (auto simp: forward_tensors_def Let_def split: option.splits)

lemma forward_after_tensors:
  "forward_tensors lib s b = Inr (enc, target_ids) \<Longrightarrow> model s = Some m \<Longrightarrow>
     forward lib s b =
       (if has_nan_or_inf (model_loss lib m (input_ids enc) (attention_mask enc) target_ids)
        then Inl SystemExit
        else Inr (model_loss lib m (input_ids enc) (attention_mask enc) target_ids))"
  by (simp add: forward_def Let_def)

lemma has_nan_or_inf_iff:
  "has_nan_or_inf t \<longleftrightarrow> (\<exists>x \<in> set t. x = NaN \<or> x = PosInf \<or> x = NegInf)"
  unfolding has_nan_or_inf_def isnan_def isinf_def Let_def
  by (induction t) auto

lemmas demo_defs =
  demo_library_def demo_hparams_def demo_tokenize_pairs_def demo_tokenize_texts_def
  demo_batch_decode_def demo_model_loss_def demo_model_generate_def pad_left_def pad_of_def
  init_def load_llm_def

lemma demo_forward_tensors:
  "forward_tensors demo_library (init demo_library demo_hparams) demo_batch
     = Inr (demo_encoding, demo_labels)"
  by (simp add: forward_tensors_def demo_defs demo_batch_def demo_encoding_def demo_labels_def
        masked_fill_def eq_scalar_def Let_def)

lemma demo_tokenizer:
  "tokenizer (init demo_library demo_hparams)
     = Some \<lparr>pretrained = (), pad_token_id = Some 0, eos_token_id = Some 0\<rparr>"
  "model (init demo_library demo_hparams) = Some ()"
  by (simp_all add: demo_defs)

text \<open>
  C1. In \<open>forward\<close>, when the tokenizer gives input ids and token type ids of the same
  shape, the labels have the shape of the input ids, and at every position the label is
  \<open>-100\<close> if the token is the tokenizer's \<open>pad_token_id\<close> or the token type is 0, and the
  input token otherwise. These labels are the ones the loss of the model is computed
  with.
\<close>

theorem forward_labels_mask_prompt_and_padding:
  assumes "forward_tensors lib s b = Inr (enc, target_ids)"
    and "same_shape (input_ids enc) (token_type_ids enc)"
  shows "\<exists>tok m pad. tokenizer s = Some tok \<and> model s = Some m \<and> pad_token_id tok = Some pad
      \<and> enc = tokenize_pairs lib tok (zip (input b) (answer b)) (max_input_length (hparams s))
      \<and> length target_ids = length (input_ids enc)
      \<and> (\<forall>r<length (input_ids enc).
            length (target_ids ! r) = length (input_ids enc ! r)
            \<and> (\<forall>i<length (input_ids enc ! r).
                  target_ids ! r ! i =
                    (if input_ids enc ! r ! i = pad \<or> token_type_ids enc ! r ! i = 0 then - 100
                     else input_ids enc ! r ! i)))
      \<and> forward lib s b =
          (if has_nan_or_inf (model_loss lib m (input_ids enc) (attention_mask enc) target_ids)
           then Inl SystemExit
           else Inr (model_loss lib m (input_ids enc) (attention_mask enc) target_ids))"
proof -
  let ?ids = "input_ids enc" and ?types = "token_type_ids enc"
  from forward_tensors_Inr [OF assms(1)] obtain tok m pad where
    tok: "tokenizer s = Some tok" "model s = Some m" "pad_token_id tok = Some pad" and
    enc: "enc = tokenize_pairs lib tok (zip (input b) (answer b)) (max_input_length (hparams s))" and
    tgt: "target_ids = masked_fill (masked_fill ?ids (eq_scalar ?ids pad) (- 100))
                         (eq_scalar ?types 0) (- 100)"
    by blast
  let ?first = "masked_fill ?ids (eq_scalar ?ids pad) (- 100)"
  have s1: "same_shape ?first ?ids" by (rule masked_fill_same_shape [OF same_shape_refl])
  from s1 assms(2) have s2: "same_shape ?first ?types" by (rule same_shape_trans)
  have l1: "length ?first = length ?ids" by (rule masked_fill_length [OF same_shape_refl])
  have len: "length target_ids = length ?ids"
    unfolding tgt using masked_fill_length [OF s2] l1 by simp
  have rows: "\<forall>r<length ?ids.
            length (target_ids ! r) = length (?ids ! r)
            \<and> (\<forall>i<length (?ids ! r).
                  target_ids ! r ! i =
                    (if ?ids ! r ! i = pad \<or> ?types ! r ! i = 0 then - 100 else ?ids ! r ! i))"
  proof (intro allI impI conjI)
    fix r assume r: "r < length ?ids"
    then have r1: "r < length ?first" using l1 by simp
    have row1: "length (?first ! r) = length (?ids ! r)"
    proof (cases "?ids ! r")
      case Nil
      with r show ?thesis by (simp add: masked_fill_row [OF same_shape_refl])
    next
      case (Cons x xs)
      then have "0 < length (?ids ! r)" by simp
      from masked_fill_nth(1) [OF same_shape_refl r this] show ?thesis .
    qed
    show "length (target_ids ! r) = length (?ids ! r)"
    proof (cases "?ids ! r")
      case Nil
      with row1 have "?first ! r = []" by simp
      then show ?thesis unfolding tgt using Nil r1 by (simp add: masked_fill_row [OF s2])
    next
      case (Cons x xs)
      with row1 have "0 < length (?first ! r)" by simp
      from masked_fill_nth(1) [OF s2 r1 this] row1 show ?thesis unfolding tgt by simp
    qed
    fix i assume i: "i < length (?ids ! r)"
    then have i1: "i < length (?first ! r)" using row1 by simp
    have "target_ids ! r ! i = (if ?types ! r ! i = 0 then - 100 else ?first ! r ! i)"
      unfolding tgt by (rule masked_fill_nth(2) [OF s2 r1 i1])
    also have "?first ! r ! i = (if ?ids ! r ! i = pad then - 100 else ?ids ! r ! i)"
      by (rule masked_fill_nth(2) [OF same_shape_refl r i])
    finally show "target_ids ! r ! i =
                    (if ?ids ! r ! i = pad \<or> ?types ! r ! i = 0 then - 100 else ?ids ! r ! i)"
      by simp
  qed
  from forward_after_tensors [OF assms(1) tok(2)] tok enc len rows show ?thesis by blast
qed

theorem forward_labels_mask_prompt_and_padding_witness:
  "forward_tensors demo_library (init demo_library demo_hparams) demo_batch
     = Inr (demo_encoding, demo_labels)
   \<and> same_shape (input_ids demo_encoding) (token_type_ids demo_encoding)
   \<and> (\<exists>tok m pad. tokenizer (init demo_library demo_hparams) = Some tok
        \<and> model (init demo_library demo_hparams) = Some m \<and> pad_token_id tok = Some pad
        \<and> length demo_labels = length (input_ids demo_encoding)
        \<and> demo_labels ! 0 ! 0
             = (if input_ids demo_encoding ! 0 ! 0 = pad \<or> token_type_ids demo_encoding ! 0 ! 0 = 0
                then - 100 else input_ids demo_encoding ! 0 ! 0)
        \<and> demo_labels ! 0 ! 3
             = (if input_ids demo_encoding ! 0 ! 3 = pad \<or> token_type_ids demo_encoding ! 0 ! 3 = 0
                then - 100 else input_ids demo_encoding ! 0 ! 3))
   \<and> demo_labels ! 0 ! 0 = - 100 \<and> demo_labels ! 0 ! 3 = 99"
proof -
  have shape: "same_shape (input_ids demo_encoding) (token_type_ids demo_encoding)"
    by (simp add: same_shape_def demo_encoding_def)
  have r: "0 < length (input_ids demo_encoding)"
    and i: "0 < length (input_ids demo_encoding ! 0)" "3 < length (input_ids demo_encoding ! 0)"
    by (simp_all add: demo_encoding_def)
  from forward_labels_mask_prompt_and_padding [OF demo_forward_tensors shape]
  obtain tok m pad where
    tok: "tokenizer (init demo_library demo_hparams) = Some tok"
      "model (init demo_library demo_hparams) = Some m" "pad_token_id tok = Some pad"
      "length demo_labels = length (input_ids demo_encoding)" and
    rows: "\<forall>r<length (input_ids demo_encoding).
        length (demo_labels ! r) = length (input_ids demo_encoding ! r)
        \<and> (\<forall>i<length (input_ids demo_encoding ! r).
              demo_labels ! r ! i =
                (if input_ids demo_encoding ! r ! i = pad \<or> token_type_ids demo_encoding ! r ! i = 0
                 then - 100 else input_ids demo_encoding ! r ! i))"
    by blast
  from rows r i have
    "demo_labels ! 0 ! 0
             = (if input_ids demo_encoding ! 0 ! 0 = pad \<or> token_type_ids demo_encoding ! 0 ! 0 = 0
                then - 100 else input_ids demo_encoding ! 0 ! 0)"
    "demo_labels ! 0 ! 3
             = (if input_ids demo_encoding ! 0 ! 3 = pad \<or> token_type_ids demo_encoding ! 0 ! 3 = 0
                then - 100 else input_ids demo_encoding ! 0 ! 3)"
    by blast+
  moreover have "demo_labels ! 0 ! 0 = - 100" "demo_labels ! 0 ! 3 = 99"
    by (simp_all add: demo_labels_def)
  ultimately show ?thesis using demo_forward_tensors shape tok by blast
qed


lemma forward_tensors_Inl:
  "forward_tensors lib s b = Inl e \<Longrightarrow> forward lib s b = Inl e \<and> e \<noteq> SystemExit"
  by (auto simp: forward_def forward_tensors_def Let_def split: option.splits)

text \<open>
  C2. \<open>has_nan_or_inf\<close> is true exactly when an element of the tensor is NaN or
  infinite. Once the tensors are built, \<open>forward\<close> exits exactly when the loss of the
  model has such an element, and returns the loss as it is otherwise. When building the
  tensors fails, \<open>forward\<close> fails with that error, which is not an exit.
\<close>

theorem forward_exits_iff_loss_not_finite:
  "(has_nan_or_inf t \<longleftrightarrow> (\<exists>x \<in> set t. x = NaN \<or> x = PosInf \<or> x = NegInf))
   \<and> (forward_tensors lib s b = Inr (enc, target_ids) \<and> model s = Some m \<longrightarrow>
        (forward lib s b = Inl SystemExit \<longleftrightarrow>
           (\<exists>x \<in> set (model_loss lib m (input_ids enc) (attention_mask enc) target_ids).
              x = NaN \<or> x = PosInf \<or> x = NegInf))
        \<and> (forward lib s b \<noteq> Inl SystemExit \<longrightarrow>
             forward lib s b
               = Inr (model_loss lib m (input_ids enc) (attention_mask enc) target_ids)))
   \<and> (forward_tensors lib s b = Inl e \<longrightarrow> forward lib s b = Inl e \<and> e \<noteq> SystemExit)"
proof (intro conjI impI)
  show "has_nan_or_inf t \<longleftrightarrow> (\<exists>x \<in> set t. x = NaN \<or> x = PosInf \<or> x = NegInf)"
    by (rule has_nan_or_inf_iff)
next
  assume "forward_tensors lib s b = Inl e"
  then show "forward lib s b = Inl e" "e \<noteq> SystemExit"
    using forward_tensors_Inl by blast+
next
  let ?loss = "model_loss lib m (input_ids enc) (attention_mask enc) target_ids"
  assume "forward_tensors lib s b = Inr (enc, target_ids) \<and> model s = Some m"
  then have "forward_tensors lib s b = Inr (enc, target_ids)" and "model s = Some m"
    by simp_all
  then have fwd: "forward lib s b = (if has_nan_or_inf ?loss then Inl SystemExit else Inr ?loss)"
    by (rule forward_after_tensors)
  show "forward lib s b = Inl SystemExit \<longleftrightarrow>
          (\<exists>x \<in> set ?loss. x = NaN \<or> x = PosInf \<or> x = NegInf)"
    unfolding fwd has_nan_or_inf_iff [symmetric] by simp
  assume "forward lib s b \<noteq> Inl SystemExit"
  with fwd show "forward lib s b = Inr ?loss" by (simp split: if_splits)
qed

lemma nan_forward_tensors:
  "forward_tensors nan_library (init nan_library demo_hparams) demo_batch
     = Inr (demo_encoding, demo_labels)"
  by (simp add: forward_tensors_def nan_library_def demo_defs demo_batch_def demo_encoding_def
        demo_labels_def masked_fill_def eq_scalar_def Let_def)

theorem forward_exits_iff_loss_not_finite_witness:
  "forward demo_library (init demo_library demo_hparams) demo_batch = Inr [Finite 1]
   \<and> forward nan_library (init nan_library demo_hparams) demo_batch = Inl SystemExit
   \<and> forward demo_library ((init demo_library demo_hparams)\<lparr>tokenizer := None\<rparr>) demo_batch
       = Inl AttributeError"
proof -
  have m: "model (init demo_library demo_hparams) = Some ()"
    "model (init nan_library demo_hparams) = Some ()"
    by (simp_all add: nan_library_def demo_defs)
  have finite: "\<not> (\<exists>x \<in> set (model_loss demo_library () (input_ids demo_encoding)
                   (attention_mask demo_encoding) demo_labels). x = NaN \<or> x = PosInf \<or> x = NegInf)"
    by (simp add: demo_library_def demo_model_loss_def)
  have loss: "model_loss demo_library () (input_ids demo_encoding)
                (attention_mask demo_encoding) demo_labels = [Finite 1]"
    by (simp add: demo_library_def demo_model_loss_def demo_labels_def)
  have nan: "\<exists>x \<in> set (model_loss nan_library () (input_ids demo_encoding)
                   (attention_mask demo_encoding) demo_labels). x = NaN \<or> x = PosInf \<or> x = NegInf"
    by (simp add: nan_library_def)
  have early: "forward_tensors demo_library ((init demo_library demo_hparams)\<lparr>tokenizer := None\<rparr>)
                 demo_batch = Inl AttributeError"
    by (simp add: forward_tensors_def)
  from forward_exits_iff_loss_not_finite
         [of _ demo_library "init demo_library demo_hparams" demo_batch demo_encoding demo_labels "()"]
       demo_forward_tensors m(1) finite loss
  have "forward demo_library (init demo_library demo_hparams) demo_batch = Inr [Finite 1]"
    by metis
  moreover from forward_exits_iff_loss_not_finite
         [of _ nan_library "init nan_library demo_hparams" demo_batch demo_encoding demo_labels "()"]
       nan_forward_tensors m(2) nan
  have "forward nan_library (init nan_library demo_hparams) demo_batch = Inl SystemExit"
    by metis
  moreover from forward_exits_iff_loss_not_finite
         [of _ demo_library "(init demo_library demo_hparams)\<lparr>tokenizer := None\<rparr>" demo_batch
             _ _ _ AttributeError]
       early
  have "forward demo_library ((init demo_library demo_hparams)\<lparr>tokenizer := None\<rparr>) demo_batch
       = Inl AttributeError"
    by metis
  ultimately show ?thesis by blast
qed

section \<open>Generation\<close>

lemma demo_generate_two:
  "generate demo_library (init demo_library demo_hparams) batch_two_answers default_params
     = Inr [''ab<1>'', ''cd<1>'']"
  by (simp add: generate_def demo_defs default_params_def batch_two_answers_def Let_def
        char_of_def)

lemma demo_generate_one:
  "generate demo_library (init demo_library demo_hparams) batch_one_answer default_params
     = Inr [''ab<1>'']"
  by (simp add: generate_def demo_defs default_params_def batch_one_answer_def Let_def
        char_of_def)

text \<open>
  C8, as stated, fails: \<open>generate\<close> takes the prompts from \<open>zip(batch['input'],
  batch['answer'])\<close>, which stops at the shorter list. Two batches with the same two
  prompts, one with two answers and one with a single answer, give two texts and one
  text.
\<close>

theorem generate_depends_on_answer_count:
  "input batch_two_answers = input batch_one_answer
   \<and> generate demo_library (init demo_library demo_hparams) batch_two_answers default_params
       \<noteq> generate demo_library (init demo_library demo_hparams) batch_one_answer default_params"
  by (simp add: demo_generate_two demo_generate_one)
     (simp add: batch_two_answers_def batch_one_answer_def)

text \<open>
  C8, amended. For two batches with the same \<open>input\<close> list whose \<open>answer\<close> lists have
  the same length, whatever the answers are, \<open>generate\<close> gives the same result (same
  library, same state, same generation parameters).
\<close>

theorem generate_ignores_answer_contents:
  assumes "input b = input b'" and "length (answer b) = length (answer b')"
  shows "generate lib s b p = generate lib s b' p"
proof -
  have "map fst (zip (input b) (answer b)) = map fst (zip (input b') (answer b'))"
    using assms by (simp add: map_fst_zip_take)
  then show ?thesis by (simp add: generate_def)
qed

theorem generate_ignores_answer_contents_witness:
  "input batch_two_answers = input batch_other_answers
   \<and> length (answer batch_two_answers) = length (answer batch_other_answers)
   \<and> answer batch_two_answers \<noteq> answer batch_other_answers
   \<and> generate demo_library (init demo_library demo_hparams) batch_two_answers default_params
       = generate demo_library (init demo_library demo_hparams) batch_other_answers default_params
   \<and> generate demo_library (init demo_library demo_hparams) batch_other_answers default_params
       = Inr [''ab<1>'', ''cd<1>'']"
proof -
  have h: "input batch_two_answers = input batch_other_answers"
    "length (answer batch_two_answers) = length (answer batch_other_answers)"
    "answer batch_two_answers \<noteq> answer batch_other_answers"
    by (simp_all add: batch_two_answers_def batch_other_answers_def)
  from generate_ignores_answer_contents [OF h(1,2), of demo_library "init demo_library demo_hparams" default_params]
  have "generate demo_library (init demo_library demo_hparams) batch_two_answers default_params
       = generate demo_library (init demo_library demo_hparams) batch_other_answers default_params" .
  with h demo_generate_two show ?thesis by simp
qed

section \<open>Loading and construction\<close>

text \<open>
  C6. \<open>load_llm\<close> stores in \<open>self.model\<close> the result of \<open>get_peft_model\<close> on the
  pretrained causal model, loaded with the 4-bit configuration (\<open>load_in_4bit\<close>, type
  \<open>nf4\<close>, double quantization, compute type float16), and the LoRA configuration of rank
  16, alpha 32, dropout 0.05 and seven target modules; the tokenizer stored is the
  pretrained one of the same model id.
\<close>

theorem load_llm_quantized_lora_model:
  "model (load_llm lib s) =
     Some (get_peft_model lib
             (AutoModelForCausalLM_from_pretrained lib
                \<lparr>model_id = ''meta-llama/Llama-3.2-1B-Instruct'',
                 model_token = ''your_huggingface_token'',
                 quantization_config =
                   \<lparr>load_in_4bit = True, bnb_4bit_quant_type = ''nf4'',
                    bnb_4bit_compute_dtype = Float16, bnb_4bit_use_double_quant = True\<rparr>,
                 device_map = cuda s,
                 model_cache_dir = ''/home/haohao/.huggingface'',
                 attn_implementation = ''eager''\<rparr>)
             \<lparr>lora_r = 16, lora_alpha = 32, lora_dropout = 5 / 100, bias = ''none'',
              task_type = ''CAUSAL_LM'',
              target_modules = [''up_proj'', ''down_proj'', ''gate_proj'', ''k_proj'', ''q_proj'',
                                ''v_proj'', ''o_proj'']\<rparr>)
   \<and> (\<exists>tok. tokenizer (load_llm lib s) = Some tok
        \<and> pretrained tok =
            pretrained (AutoTokenizer_from_pretrained lib
                          \<lparr>tokenizer_id = ''meta-llama/Llama-3.2-1B-Instruct'',
                           tokenizer_token = ''your_huggingface_token'',
                           tokenizer_cache_dir = ''/home/haohao/.huggingface'',
                           padding_side = ''left''\<rparr>))
   \<and> length [''up_proj'', ''down_proj'', ''gate_proj'', ''k_proj'', ''q_proj'', ''v_proj'', ''o_proj'']
       = (7 :: nat)"
  by (simp add: load_llm_def Let_def)

section \<open>Optimizer and scheduler\<close>

text \<open>
  C5. With the model loaded, \<open>configure_optimizers\<close> builds an AdamW optimizer over the
  parameters of the model with the learning rate \<open>hparams.lr\<close>. When \<open>lr_scheduler\<close> is
  \<open>None\<close> it returns this optimizer and leaves the state as it is. When it is \<open>cosine\<close>
  it returns the optimizer and stores a scheduler over it whose \<open>warmup_steps\<close> is
  \<open>max_steps\<close> floor-divided by 20. For every other value it raises \<open>ValueError\<close>. (In
  that last case the optimizer built is dropped, which no result shows.)
\<close>

theorem configure_optimizers_cases:
  assumes "model s = Some m"
    and "opt = AdamW [\<lparr>params = m, group_lr = lr (hparams s),
                       group_weight_decay = (case weight_decay (hparams s) of
                                               Some w \<Rightarrow> w | None \<Rightarrow> 0)\<rparr>]"
  shows "(lr_scheduler (hparams s) = None \<longrightarrow> configure_optimizers tr s = (s, Inr opt))
     \<and> (lr_scheduler (hparams s) = Some ''cosine'' \<longrightarrow>
          (\<exists>sc. configure_optimizers tr s = (s\<lparr>scheduler := Is sc\<rparr>, Inr opt)
             \<and> sched_optimizer sc = opt
             \<and> warmup_steps sc = max_steps tr div 20
             \<and> warmup_steps sc * 20 \<le> max_steps tr \<and> max_steps tr < warmup_steps sc * 20 + 20
             \<and> max_step sc = max_steps tr
             \<and> init_lr sc = lr (hparams s)
             \<and> min_lr sc = lr_decay_min_lr (hparams s)
             \<and> warmup_start_lr sc = lr_warmup_start_lr (hparams s)))
     \<and> (\<forall>x. lr_scheduler (hparams s) = Some x \<and> x \<noteq> ''cosine'' \<longrightarrow>
          configure_optimizers tr s = (s\<lparr>scheduler := IsNone\<rparr>, Inl ValueError))"
proof (intro conjI impI allI)
  assume "lr_scheduler (hparams s) = None"
  with assms show "configure_optimizers tr s = (s, Inr opt)"
    by (simp add: configure_optimizers_def)
next
  assume c: "lr_scheduler (hparams s) = Some ''cosine''"
  let ?sc = "\<lparr>sched_optimizer = opt, max_step = max_steps tr,
              min_lr = lr_decay_min_lr (hparams s), init_lr = lr (hparams s),
              warmup_steps = max_steps tr div 20,
              warmup_start_lr = lr_warmup_start_lr (hparams s)\<rparr>"
  from c assms have "configure_optimizers tr s = (s\<lparr>scheduler := Is ?sc\<rparr>, Inr opt)"
    by (simp add: configure_optimizers_def Let_def)
  moreover have "warmup_steps ?sc * 20 \<le> max_steps tr"
    "max_steps tr < warmup_steps ?sc * 20 + 20"
    by simp_all
  ultimately show "\<exists>sc. configure_optimizers tr s = (s\<lparr>scheduler := Is sc\<rparr>, Inr opt)
             \<and> sched_optimizer sc = opt
             \<and> warmup_steps sc = max_steps tr div 20
             \<and> warmup_steps sc * 20 \<le> max_steps tr \<and> max_steps tr < warmup_steps sc * 20 + 20
             \<and> max_step sc = max_steps tr
             \<and> init_lr sc = lr (hparams s)
             \<and> min_lr sc = lr_decay_min_lr (hparams s)
             \<and> warmup_start_lr sc = lr_warmup_start_lr (hparams s)"
    by (intro exI [of _ ?sc]) simp
next
  fix x assume "lr_scheduler (hparams s) = Some x \<and> x \<noteq> ''cosine''"
  with assms show "configure_optimizers tr s = (s\<lparr>scheduler := IsNone\<rparr>, Inl ValueError)"
    by (simp add: configure_optimizers_def Let_def)
qed


lemma demo_init_fields:
  "model (init demo_library hp) = Some ()"
  "hparams (init demo_library hp) = hp"
  "scheduler (init demo_library hp) = Missing"
  "val_content (init demo_library hp) = None"
  "test_content (init demo_library hp) = None"
  "tokenizer (init demo_library hp)
     = Some \<lparr>pretrained = (), pad_token_id = Some 0, eos_token_id = Some 0\<rparr>"
  by (simp_all add: init_def load_llm_def demo_library_def Let_def)

theorem configure_optimizers_cases_witness:
  "configure_optimizers demo_trainer (init demo_library (demo_hparams\<lparr>lr_scheduler := None\<rparr>))
     = (init demo_library (demo_hparams\<lparr>lr_scheduler := None\<rparr>), Inr demo_optimizer)
   \<and> (\<exists>sc. configure_optimizers demo_trainer (init demo_library demo_hparams)
              = ((init demo_library demo_hparams)\<lparr>scheduler := Is sc\<rparr>, Inr demo_optimizer)
          \<and> sched_optimizer sc = demo_optimizer \<and> warmup_steps sc = 5)
   \<and> (\<exists>sc. configure_optimizers unlimited_trainer (init demo_library demo_hparams)
              = ((init demo_library demo_hparams)\<lparr>scheduler := Is sc\<rparr>, Inr demo_optimizer)
          \<and> warmup_steps sc = - 1)
   \<and> configure_optimizers demo_trainer
        (init demo_library (demo_hparams\<lparr>lr_scheduler := Some ''linear''\<rparr>))
       = ((init demo_library (demo_hparams\<lparr>lr_scheduler := Some ''linear''\<rparr>))
            \<lparr>scheduler := IsNone\<rparr>, Inl ValueError)"
proof -
  have opt: "demo_optimizer =
      AdamW [\<lparr>params = (), group_lr = lr (hparams (init demo_library hp)),
               group_weight_decay = (case weight_decay (hparams (init demo_library hp)) of
                                       Some w \<Rightarrow> w | None \<Rightarrow> 0)\<rparr>]"
    if "lr hp = 1 / 1000" "weight_decay hp = None" for hp
    using that by (simp add: demo_optimizer_def demo_init_fields)
  have hp: "lr demo_hparams = 1 / 1000" "weight_decay demo_hparams = None"
    "lr_scheduler demo_hparams = Some ''cosine''"
    by (simp_all add: demo_hparams_def)
  note none = configure_optimizers_cases
      [OF demo_init_fields(1) opt, of "demo_hparams\<lparr>lr_scheduler := None\<rparr>" demo_trainer]
  note cosine = configure_optimizers_cases
      [OF demo_init_fields(1) opt, of demo_hparams demo_trainer]
  note floor = configure_optimizers_cases
      [OF demo_init_fields(1) opt, of demo_hparams unlimited_trainer]
  note other = configure_optimizers_cases
      [OF demo_init_fields(1) opt, of "demo_hparams\<lparr>lr_scheduler := Some ''linear''\<rparr>" demo_trainer]
  have "configure_optimizers demo_trainer (init demo_library (demo_hparams\<lparr>lr_scheduler := None\<rparr>))
     = (init demo_library (demo_hparams\<lparr>lr_scheduler := None\<rparr>), Inr demo_optimizer)"
    using none hp by (simp add: demo_init_fields)
  moreover have "\<exists>sc. configure_optimizers demo_trainer (init demo_library demo_hparams)
              = ((init demo_library demo_hparams)\<lparr>scheduler := Is sc\<rparr>, Inr demo_optimizer)
          \<and> sched_optimizer sc = demo_optimizer \<and> warmup_steps sc = 5"
    using cosine hp by (simp add: demo_init_fields demo_trainer_def) blast
  moreover have "\<exists>sc. configure_optimizers unlimited_trainer (init demo_library demo_hparams)
              = ((init demo_library demo_hparams)\<lparr>scheduler := Is sc\<rparr>, Inr demo_optimizer)
          \<and> warmup_steps sc = - 1"
    using floor hp by (simp add: demo_init_fields unlimited_trainer_def) blast
  moreover have "configure_optimizers demo_trainer
        (init demo_library (demo_hparams\<lparr>lr_scheduler := Some ''linear''\<rparr>))
       = ((init demo_library (demo_hparams\<lparr>lr_scheduler := Some ''linear''\<rparr>))
            \<lparr>scheduler := IsNone\<rparr>, Inl ValueError)"
    using other hp by (simp add: demo_init_fields)
  ultimately show ?thesis by blast
qed

section \<open>Calls of the loader\<close>

text \<open>
  C7. A construction calls \<open>load_llm\<close> once: after \<open>__init__\<close> the count of calls is 1,
  each call of \<open>load_llm\<close> adding one. \<open>training_step\<close>, \<open>validation_step\<close>, \<open>test_step\<close>
  and \<open>configure_optimizers\<close> leave the count as it is, and so do the two epoch starts.
  \<open>generate\<close> and \<open>forward\<close> only read the state.
\<close>

theorem load_llm_runs_once_at_construction:
  "load_llm_calls (init lib kargs) = 1
   \<and> load_llm_calls (load_llm lib s) = Suc (load_llm_calls s)
   \<and> (training_step lib tr s b n = Inr (s', loss, logs) \<longrightarrow> load_llm_calls s' = load_llm_calls s)
   \<and> (validation_step lib s b n = Inr s' \<longrightarrow> load_llm_calls s' = load_llm_calls s)
   \<and> (test_step lib s b n = Inr s' \<longrightarrow> load_llm_calls s' = load_llm_calls s)
   \<and> load_llm_calls (fst (configure_optimizers tr s)) = load_llm_calls s
   \<and> load_llm_calls (on_validation_epoch_start s) = load_llm_calls s
   \<and> load_llm_calls (on_test_epoch_start s) = load_llm_calls s"
proof (intro conjI impI)
  show "load_llm_calls (init lib kargs) = 1"
    by (simp add: init_def load_llm_def Let_def)
  show "load_llm_calls (load_llm lib s) = Suc (load_llm_calls s)"
    by (simp add: load_llm_def Let_def)
  show "load_llm_calls (fst (configure_optimizers tr s)) = load_llm_calls s"
    by (simp add: configure_optimizers_def Let_def split: option.splits)
  show "load_llm_calls (on_validation_epoch_start s) = load_llm_calls s"
    by (simp add: on_validation_epoch_start_def)
  show "load_llm_calls (on_test_epoch_start s) = load_llm_calls s"
    by (simp add: on_test_epoch_start_def)
next
  assume "training_step lib tr s b n = Inr (s', loss, logs)"
  then show "load_llm_calls s' = load_llm_calls s"
    by (auto simp: training_step_def Let_def split: attribute.splits sum.splits)
next
  assume "validation_step lib s b n = Inr s'"
  then show "load_llm_calls s' = load_llm_calls s"
    by (auto simp: validation_step_def split: sum.splits)
next
  assume "test_step lib s b n = Inr s'"
  then show "load_llm_calls s' = load_llm_calls s"
    by (auto simp: test_step_def split: sum.splits)
qed


lemma demo_training_step:
  "\<exists>s' loss logs.
     training_step demo_library demo_trainer
       (fst (configure_optimizers demo_trainer (init demo_library demo_hparams))) demo_batch 0
     = Inr (s', loss, logs)"
  by (simp add: training_step_def configure_optimizers_def forward_def forward_tensors_def
        first_group_lr_def first_item_def configure_loss_def has_nan_or_inf_def isnan_def
        isinf_def masked_fill_def eq_scalar_def demo_defs demo_batch_def demo_trainer_def
        Let_def)

lemma demo_validation_step:
  "\<exists>s'. validation_step demo_library
          (on_validation_epoch_start (init demo_library demo_hparams)) demo_batch 0 = Inr s'"
  by (simp add: validation_step_def on_validation_epoch_start_def empty_content_def
        generate_def default_params_def demo_defs demo_batch_def Let_def)

lemma demo_test_step:
  "\<exists>s'. test_step demo_library
          (on_test_epoch_start (init demo_library demo_hparams)) demo_batch 0 = Inr s'"
  by (simp add: test_step_def on_test_epoch_start_def empty_content_def
        generate_def default_params_def demo_defs demo_batch_def Let_def)

theorem load_llm_runs_once_at_construction_witness:
  "load_llm_calls (init demo_library demo_hparams) = 1
   \<and> load_llm_calls (fst (configure_optimizers demo_trainer (init demo_library demo_hparams))) = 1
   \<and> (\<exists>s' loss logs.
        training_step demo_library demo_trainer
          (fst (configure_optimizers demo_trainer (init demo_library demo_hparams))) demo_batch 0
        = Inr (s', loss, logs)
        \<and> load_llm_calls s' = 1)
   \<and> (\<exists>s'. validation_step demo_library
               (on_validation_epoch_start (init demo_library demo_hparams)) demo_batch 0 = Inr s'
        \<and> load_llm_calls s' = 1)
   \<and> (\<exists>s'. test_step demo_library
               (on_test_epoch_start (init demo_library demo_hparams)) demo_batch 0 = Inr s'
        \<and> load_llm_calls s' = 1)"
proof -
  let ?s0 = "init demo_library demo_hparams"
  let ?s1 = "fst (configure_optimizers demo_trainer ?s0)"
  note T = load_llm_runs_once_at_construction
  have one: "load_llm_calls ?s0 = 1"
    using T [of demo_library demo_hparams] by blast
  have conf: "load_llm_calls ?s1 = 1"
    using T [of demo_library demo_hparams ?s0 demo_trainer] by simp
  from demo_training_step obtain s' loss logs where
    tr: "training_step demo_library demo_trainer ?s1 demo_batch 0 = Inr (s', loss, logs)"
    by blast
  with T [of demo_library demo_hparams ?s1 demo_trainer demo_batch 0 s' loss logs] conf
  have "load_llm_calls s' = 1" by simp
  with tr have a: "\<exists>s' loss logs.
        training_step demo_library demo_trainer ?s1 demo_batch 0 = Inr (s', loss, logs)
        \<and> load_llm_calls s' = 1"
    by blast
  from demo_validation_step obtain v where
    va: "validation_step demo_library (on_validation_epoch_start ?s0) demo_batch 0 = Inr v"
    by blast
  with T [of demo_library demo_hparams "on_validation_epoch_start ?s0" demo_trainer demo_batch 0 v]
       T [of demo_library demo_hparams ?s0] one
  have "load_llm_calls v = 1" by simp
  with va have b: "\<exists>s'. validation_step demo_library (on_validation_epoch_start ?s0) demo_batch 0
                          = Inr s' \<and> load_llm_calls s' = 1"
    by blast
  from demo_test_step obtain t where
    te: "test_step demo_library (on_test_epoch_start ?s0) demo_batch 0 = Inr t"
    by blast
  with T [of demo_library demo_hparams "on_test_epoch_start ?s0" demo_trainer demo_batch 0 t]
       T [of demo_library demo_hparams ?s0] one
  have "load_llm_calls t = 1" by simp
  with te have c: "\<exists>s'. test_step demo_library (on_test_epoch_start ?s0) demo_batch 0
                          = Inr s' \<and> load_llm_calls s' = 1"
    by blast
  from one conf a b c show ?thesis by blast
qed

end
